theory Spec2Isabelle
  imports Complex_Main
begin

section \<open>JavaScript values and errors\<close>

text \<open>
  The values the handlers of \<^verbatim>\<open>f1-site/server.js\<close> read and build: what
  \<^verbatim>\<open>JSON.parse\<close> returns (null, booleans, numbers, strings, arrays, objects), and
  \<^verbatim>\<open>undefined\<close>, which a read of a missing property yields. Strings are byte lists
  (UTF-8); an object is the association list of its own properties, in order.
  Numbers are the finite values a JSON literal denotes.
\<close>

datatype js =
    JUndefined
  | JNull
  | JBool bool
  | JNum rat
  | JStr string
  | JArr "js list"
  | JObj "(string \<times> js) list"

text \<open>
  A thrown value, with its \<^verbatim>\<open>message\<close>. \<open>TypeError\<close> is what the engine throws
  on a property read of null or undefined and on a call of a non-function; \<open>Rejected\<close> is
  what \<^verbatim>\<open>fetch\<close> or \<^verbatim>\<open>response.json()\<close> reject with. The text of a
  \<open>TypeError\<close> is the engine's, not the program's; nothing below depends on it.
\<close>

datatype exn = TypeError string | Rejected string

fun message :: "exn \<Rightarrow> string" where
  "message (TypeError m) = m"
| "message (Rejected m) = m"

definition thenE :: "exn + 'a \<Rightarrow> ('a \<Rightarrow> exn + 'b) \<Rightarrow> exn + 'b" where
  "thenE m f = (case m of Inl e \<Rightarrow> Inl e | Inr x \<Rightarrow> f x)"

text \<open>Truthiness, and the operator \<^verbatim>\<open>a || b\<close> on values already evaluated
  (every right operand in the source is a constant or a variable).\<close>

fun truthy :: "js \<Rightarrow> bool" where
  "truthy JUndefined = False"
| "truthy JNull = False"
| "truthy (JBool b) = b"
| "truthy (JNum n) = (n \<noteq> 0)"
| "truthy (JStr s) = (s \<noteq> [])"
| "truthy (JArr xs) = True"
| "truthy (JObj kvs) = True"

definition js_or :: "js \<Rightarrow> js \<Rightarrow> js" where
  "js_or a b = (if truthy a then a else b)"

definition cannot_read :: "string \<Rightarrow> string \<Rightarrow> exn" where
  "cannot_read what p =
     TypeError (''Cannot read properties of '' @ what @ '' (reading '' @ [CHR 0x27] @ p @ [CHR 0x27] @ '')'')"

text \<open>
  \<^verbatim>\<open>v.p\<close> for the property names the handlers read. None of them is inherited from
  a prototype, except \<^verbatim>\<open>length\<close> of arrays and strings (and \<^verbatim>\<open>map\<close>, which is
  \<open>js_map\<close> below). A string's length is counted in bytes here; the handlers only compare
  it with zero.
\<close>

fun get_prop :: "js \<Rightarrow> string \<Rightarrow> exn + js" where
  "get_prop JUndefined p = Inl (cannot_read ''undefined'' p)"
| "get_prop JNull p = Inl (cannot_read ''null'' p)"
| "get_prop (JObj kvs) p = Inr (case map_of kvs p of None \<Rightarrow> JUndefined | Some v \<Rightarrow> v)"
| "get_prop (JArr xs) p = Inr (if p = ''length'' then JNum (of_nat (length xs)) else JUndefined)"
| "get_prop (JStr s) p = Inr (if p = ''length'' then JNum (of_nat (length s)) else JUndefined)"
| "get_prop (JBool b) p = Inr JUndefined"
| "get_prop (JNum n) p = Inr JUndefined"

text \<open>Optional chaining \<^verbatim>\<open>v?.p\<close>: undefined when \<open>v\<close> is null or undefined.\<close>

fun get_prop_opt :: "js \<Rightarrow> string \<Rightarrow> js" where
  "get_prop_opt JUndefined p = JUndefined"
| "get_prop_opt JNull p = JUndefined"
| "get_prop_opt v p = (case get_prop v p of Inl e \<Rightarrow> JUndefined | Inr x \<Rightarrow> x)"

text \<open>\<^verbatim>\<open>v[0]\<close>.\<close>

fun get_first :: "js \<Rightarrow> exn + js" where
  "get_first JUndefined = Inl (cannot_read ''undefined'' ''0'')"
| "get_first JNull = Inl (cannot_read ''null'' ''0'')"
| "get_first (JArr xs) = Inr (case xs of [] \<Rightarrow> JUndefined | x # _ \<Rightarrow> x)"
| "get_first (JObj kvs) = Inr (case map_of kvs ''0'' of None \<Rightarrow> JUndefined | Some v \<Rightarrow> v)"
| "get_first (JStr s) = Inr (case s of [] \<Rightarrow> JUndefined | c # _ \<Rightarrow> JStr [c])"
| "get_first (JBool b) = Inr JUndefined"
| "get_first (JNum n) = Inr JUndefined"

fun mapE :: "('a \<Rightarrow> exn + 'b) \<Rightarrow> 'a list \<Rightarrow> exn + 'b list" where
  "mapE f [] = Inr []"
| "mapE f (x # xs) =
     (case f x of
        Inl e \<Rightarrow> Inl e
      | Inr y \<Rightarrow> (case mapE f xs of Inl e \<Rightarrow> Inl e | Inr ys \<Rightarrow> Inr (y # ys)))"

text \<open>
  \<^verbatim>\<open>v.map(f)\<close>: on an array, \<open>f\<close> on each element in order, the first throw
  ending it; the result is the list of the new array's elements. On null and undefined
  the read of \<^verbatim>\<open>map\<close> throws; on any other value \<^verbatim>\<open>map\<close> is undefined
  or (an own property of a parsed object) not a function, and the call throws.
\<close>

fun js_map :: "(js \<Rightarrow> exn + js) \<Rightarrow> js \<Rightarrow> exn + js list" where
  "js_map f (JArr xs) = mapE f xs"
| "js_map f JUndefined = Inl (cannot_read ''undefined'' ''map'')"
| "js_map f JNull = Inl (cannot_read ''null'' ''map'')"
| "js_map f v = Inl (TypeError ''map is not a function'')"

section \<open>Numbers and strings\<close>

definition is_digit :: "char \<Rightarrow> bool" where
  "is_digit c = (48 \<le> (of_char c :: nat) \<and> (of_char c :: nat) \<le> 57)"

definition digit_val :: "char \<Rightarrow> nat" where
  "digit_val c = of_char c - 48"

definition is_space :: "char \<Rightarrow> bool" where
  "is_space c = ((of_char c :: nat) \<in> {9, 10, 11, 12, 13, 32})"

definition dec :: "string \<Rightarrow> nat" where
  "dec ds = foldl (\<lambda>a c. 10 * a + digit_val c) 0 ds"

text \<open>
  \<^verbatim>\<open>parseInt(s, 10)\<close>: leading white space and one sign skipped, then the longest run
  of decimal digits; \<open>None\<close> is NaN. White space is the ASCII part of it; the value is
  exact where the run is short enough for a double (15 digits).
\<close>

definition parseInt :: "string \<Rightarrow> int option" where
  "parseInt s =
     (let t = dropWhile is_space s;
          neg = (t \<noteq> [] \<and> hd t = CHR ''-'');
          u = (if t \<noteq> [] \<and> (hd t = CHR ''-'' \<or> hd t = CHR ''+'') then tl t else t);
          ds = takeWhile is_digit u
      in if ds = [] then None
         else Some (if neg then - int (dec ds) else int (dec ds)))"

text \<open>\<^verbatim>\<open>/^\d{4}$/.test(s)\<close>.\<close>

definition four_digits :: "string \<Rightarrow> bool" where
  "four_digits s = (length s = 4 \<and> list_all is_digit s)"

fun show_nat :: "nat \<Rightarrow> string" where
  "show_nat n =
     (if n < 10 then [char_of (48 + n)]
      else show_nat (n div 10) @ [char_of (48 + n mod 10)])"

declare show_nat.simps [simp del]

definition show_int :: "int \<Rightarrow> string" where
  "show_int i = (if i < 0 then CHR ''-'' # show_nat (nat (- i)) else show_nat (nat i))"

text \<open>A number in a template literal; \<open>None\<close> is NaN.\<close>

definition show_num :: "int option \<Rightarrow> string" where
  "show_num n = (case n of None \<Rightarrow> ''NaN'' | Some i \<Rightarrow> show_int i)"

definition unreserved :: "char \<Rightarrow> bool" where
  "unreserved c =
     (let n = (of_char c :: nat) in
        (48 \<le> n \<and> n \<le> 57) \<or> (65 \<le> n \<and> n \<le> 90) \<or> (97 \<le> n \<and> n \<le> 122)
        \<or> c \<in> set ''-_.!~*()'' \<or> n = 39)"

definition hex_digit :: "nat \<Rightarrow> char" where
  "hex_digit n = (if n < 10 then char_of (48 + n) else char_of (55 + n))"

definition encodeURIComponent :: "string \<Rightarrow> string" where
  "encodeURIComponent s =
     concat (map (\<lambda>c. if unreserved c then [c]
                      else [CHR ''%'', hex_digit ((of_char c :: nat) div 16),
                            hex_digit ((of_char c :: nat) mod 16)]) s)"

section \<open>Constants and the year validator\<close>

definition OPENF1_MIN_YEAR :: int where
  "OPENF1_MIN_YEAR = 2023"

definition F1_MIN_YEAR :: int where
  "F1_MIN_YEAR = 1950"

text \<open>\<^verbatim>\<open>new Date().getFullYear() + 1\<close>, evaluated once when the module is loaded;
  the argument is the calendar year at that moment.\<close>

definition F1_MAX_YEAR :: "int \<Rightarrow> int" where
  "F1_MAX_YEAR load_year = load_year + 1"

record validation =
  valid :: bool
  error :: "string option"

definition invalid_shape_message :: string where
  "invalid_shape_message =
     ''Ano inv'' @ [CHR 0xC3, CHR 0xA1] @ ''lido. Use um ano de 4 d'' @ [CHR 0xC3, CHR 0xAD]
     @ ''gitos ou '' @ [CHR 0x22] @ ''current'' @ [CHR 0x22] @ ''.''"

definition validateYear :: "int \<Rightarrow> string \<Rightarrow> validation" where
  "validateYear load_year year =
     (if year = ''current'' then \<lparr>valid = True, error = None\<rparr>
      else
        let yearNum = parseInt year in
        if yearNum = None \<or> \<not> four_digits year
        then \<lparr>valid = False, error = Some invalid_shape_message\<rparr>
        else if the yearNum < F1_MIN_YEAR \<or> the yearNum > F1_MAX_YEAR load_year
        then \<lparr>valid = False,
              error = Some (''Ano deve estar entre '' @ show_int F1_MIN_YEAR @ '' e ''
                            @ show_int (F1_MAX_YEAR load_year) @ ''.'')\<rparr>
        else \<lparr>valid = True, error = None\<rparr>)"

section \<open>Building objects\<close>

text \<open>
  An object literal \<^verbatim>\<open>{ k1: e1, k2: e2, ... }\<close>: the property values are evaluated in
  order and the first one that throws ends the evaluation.
\<close>

definition obj :: "(string \<times> (exn + js)) list \<Rightarrow> exn + js" where
  "obj props =
     thenE (mapE (\<lambda>(k, m). thenE m (\<lambda>v. Inr (k, v))) props) (\<lambda>kvs. Inr (JObj kvs))"

text \<open>\<^verbatim>\<open>v.p1.p2...\<close>, read from left to right.\<close>

fun get_path :: "js \<Rightarrow> string list \<Rightarrow> exn + js" where
  "get_path v [] = Inr v"
| "get_path v (p # ps) = thenE (get_prop v p) (\<lambda>x. get_path x ps)"

text \<open>\<^verbatim>\<open>e || null\<close>.\<close>

definition or_null :: "exn + js \<Rightarrow> exn + js" where
  "or_null m = thenE m (\<lambda>v. Inr (js_or v JNull))"

definition js_array :: "exn + js list \<Rightarrow> exn + js" where
  "js_array m = thenE m (\<lambda>xs. Inr (JArr xs))"

definition js_of_option :: "string option \<Rightarrow> js" where
  "js_of_option m = (case m of None \<Rightarrow> JUndefined | Some s \<Rightarrow> JStr s)"

section \<open>Response shapers\<close>

text \<open>The callback of \<^verbatim>\<open>mrData.RaceTable.Races.map\<close> in the calendar handler.\<close>

definition shape_race :: "js \<Rightarrow> exn + js" where
  "shape_race race =
     obj [
       (''season'', get_prop race ''season''),
       (''round'', get_prop race ''round''),
       (''url'', get_prop race ''url''),
       (''raceName'', get_prop race ''raceName''),
       (''date'', get_prop race ''date''),
       (''time'', or_null (get_prop race ''time'')),
       (''circuit'', obj [
          (''circuitId'', get_path race [''Circuit'', ''circuitId'']),
          (''url'', get_path race [''Circuit'', ''url'']),
          (''circuitName'', get_path race [''Circuit'', ''circuitName'']),
          (''location'', obj [
             (''lat'', get_path race [''Circuit'', ''Location'', ''lat'']),
             (''long'', get_path race [''Circuit'', ''Location'', ''long'']),
             (''locality'', get_path race [''Circuit'', ''Location'', ''locality'']),
             (''country'', get_path race [''Circuit'', ''Location'', ''country''])])]),
       (''sessions'', obj [
          (''firstPractice'', or_null (get_prop race ''FirstPractice'')),
          (''secondPractice'', or_null (get_prop race ''SecondPractice'')),
          (''thirdPractice'', or_null (get_prop race ''ThirdPractice'')),
          (''qualifying'', or_null (get_prop race ''Qualifying'')),
          (''sprint'', or_null (get_prop race ''Sprint''))])]"

definition shape_driver :: "js \<Rightarrow> exn + js" where
  "shape_driver driver =
     obj [
       (''driverId'', get_prop driver ''driverId''),
       (''permanentNumber'', or_null (get_prop driver ''permanentNumber'')),
       (''code'', or_null (get_prop driver ''code'')),
       (''url'', get_prop driver ''url''),
       (''givenName'', get_prop driver ''givenName''),
       (''familyName'', get_prop driver ''familyName''),
       (''dateOfBirth'', get_prop driver ''dateOfBirth''),
       (''nationality'', get_prop driver ''nationality'')]"

definition shape_constructor :: "js \<Rightarrow> exn + js" where
  "shape_constructor c =
     obj [
       (''constructorId'', get_prop c ''constructorId''),
       (''url'', get_prop c ''url''),
       (''name'', get_prop c ''name''),
       (''nationality'', get_prop c ''nationality'')]"

definition shape_standing_constructor :: "js \<Rightarrow> exn + js" where
  "shape_standing_constructor c =
     obj [
       (''constructorId'', get_prop c ''constructorId''),
       (''name'', get_prop c ''name'')]"

definition shape_driver_standing :: "js \<Rightarrow> exn + js" where
  "shape_driver_standing s =
     obj [
       (''position'', get_prop s ''position''),
       (''positionText'', get_prop s ''positionText''),
       (''points'', get_prop s ''points''),
       (''wins'', get_prop s ''wins''),
       (''driver'', obj [
          (''driverId'', get_path s [''Driver'', ''driverId'']),
          (''code'', get_path s [''Driver'', ''code'']),
          (''givenName'', get_path s [''Driver'', ''givenName'']),
          (''familyName'', get_path s [''Driver'', ''familyName'']),
          (''nationality'', get_path s [''Driver'', ''nationality''])]),
       (''constructors'',
          js_array (thenE (get_prop s ''Constructors'') (js_map shape_standing_constructor)))]"

definition shape_constructor_standing :: "js \<Rightarrow> exn + js" where
  "shape_constructor_standing s =
     obj [
       (''position'', get_prop s ''position''),
       (''positionText'', get_prop s ''positionText''),
       (''points'', get_prop s ''points''),
       (''wins'', get_prop s ''wins''),
       (''constructor'', obj [
          (''constructorId'', get_path s [''Constructor'', ''constructorId'']),
          (''name'', get_path s [''Constructor'', ''name'']),
          (''nationality'', get_path s [''Constructor'', ''nationality''])])]"

section \<open>The upstreams and the replies\<close>

text \<open>
  What \<^verbatim>\<open>fetch\<close> resolves to: the status of the upstream's answer and what
  \<^verbatim>\<open>response.json()\<close> gives, a parsed value or a rejection.
\<close>

record upstream =
  status :: nat
  json :: "exn + js"

definition ok :: "upstream \<Rightarrow> bool" where
  "ok r = (200 \<le> status r \<and> status r \<le> 299)"

text \<open>
  What a request depends on beside its path: the calendar year when the module was loaded
  (for \<open>F1_MAX_YEAR\<close>), the calendar year when the request is handled, and what
  \<^verbatim>\<open>fetch\<close> does for each URL, a rejection or an answer.
\<close>

record world =
  boot_year :: int
  now_year :: int
  fetch :: "string \<Rightarrow> exn + upstream"

text \<open>What the handler sends: the status (200 unless \<^verbatim>\<open>res.status\<close> sets it) and
  the value given to \<^verbatim>\<open>res.json\<close>.\<close>

record reply =
  code :: nat
  body :: js

definition internal_error :: "exn \<Rightarrow> reply" where
  "internal_error e =
     \<lparr>code = 500,
      body = JObj [(''error'', JStr ''Erro interno do servidor''),
                   (''message'', JStr (message e))]\<rparr>"

text \<open>
  The frame the five handlers share line for line: validation, the fetch of the Ergast
  URL, the check of \<^verbatim>\<open>response.ok\<close>, \<^verbatim>\<open>response.json()\<close>, and the
  \<^verbatim>\<open>catch\<close> around all of it. \<open>rest\<close> is the remainder of the
  \<^verbatim>\<open>try\<close> block: it gives the URLs it fetched and a reply or a throw. The result
  is the list of URLs fetched, in order, and the reply.
\<close>

definition handler ::
  "world \<Rightarrow> string \<Rightarrow> string \<Rightarrow> string \<Rightarrow> (js \<Rightarrow> string list \<times> (exn + reply))
   \<Rightarrow> string list \<times> reply" where
  "handler w year ergastUrl failure rest =
     (let validation = validateYear (boot_year w) year in
      if \<not> valid validation
      then ([], \<lparr>code = 400, body = JObj [(''error'', js_of_option (error validation))]\<rparr>)
      else
        (case fetch w ergastUrl of
           Inl e \<Rightarrow> ([ergastUrl], internal_error e)
         | Inr response \<Rightarrow>
             (if \<not> ok response
              then ([ergastUrl],
                    \<lparr>code = status response,
                     body = JObj [(''error'', JStr failure),
                                  (''status'', JNum (of_nat (status response)))]\<rparr>)
              else
                (case json response of
                   Inl e \<Rightarrow> ([ergastUrl], internal_error e)
                 | Inr data \<Rightarrow>
                     (case rest data of
                        (calls, Inl e) \<Rightarrow> (ergastUrl # calls, internal_error e)
                      | (calls, Inr r) \<Rightarrow> (ergastUrl # calls, r))))))"

section \<open>The calendar endpoint\<close>

definition ergast_url :: "string \<Rightarrow> string \<Rightarrow> string" where
  "ergast_url year resource =
     ''https://ergast.com/api/f1/'' @ encodeURIComponent year @ resource @ ''.json''"

definition openf1_url :: "int option \<Rightarrow> string" where
  "openf1_url requestedYear = ''https://api.openf1.org/v1/meetings?year='' @ show_num requestedYear"

text \<open>\<^verbatim>\<open>year === 'current' ? currentYear : parseInt(year, 10)\<close>; \<open>None\<close> is NaN.\<close>

definition resolve_year :: "world \<Rightarrow> string \<Rightarrow> int option" where
  "resolve_year w year = (if year = ''current'' then Some (now_year w) else parseInt year)"

text \<open>\<^verbatim>\<open>requestedYear >= OPENF1_MIN_YEAR\<close>, false on NaN.\<close>

definition recent :: "int option \<Rightarrow> bool" where
  "recent requestedYear = (case requestedYear of None \<Rightarrow> False | Some y \<Rightarrow> y \<ge> OPENF1_MIN_YEAR)"

text \<open>\<^verbatim>\<open>!mrData.RaceTable || !mrData.RaceTable.Races\<close>.\<close>

definition no_races :: "js \<Rightarrow> exn + bool" where
  "no_races mrData =
     thenE (get_prop mrData ''RaceTable'') (\<lambda>raceTable.
       if \<not> truthy raceTable then Inr True
       else thenE (get_path mrData [''RaceTable'', ''Races'']) (\<lambda>races. Inr (\<not> truthy races)))"

text \<open>
  The inner \<^verbatim>\<open>try\<close> of the calendar handler: the URL fetched and the value of
  \<^verbatim>\<open>openf1Data\<close> after it, which stays null unless the answer is ok and parses.
\<close>

definition fetch_openf1 :: "world \<Rightarrow> string \<Rightarrow> string list \<times> js" where
  "fetch_openf1 w openf1Url =
     (case fetch w openf1Url of
        Inl openf1Error \<Rightarrow> ([openf1Url], JNull)
      | Inr openf1Response \<Rightarrow>
          (if ok openf1Response
           then (case json openf1Response of
                   Inl openf1Error \<Rightarrow> ([openf1Url], JNull)
                 | Inr parsed \<Rightarrow> ([openf1Url], parsed))
           else ([openf1Url], JNull)))"

definition calendar_rest :: "world \<Rightarrow> string \<Rightarrow> js \<Rightarrow> string list \<times> (exn + reply)" where
  "calendar_rest w year ergastData =
     (case get_prop ergastData ''MRData'' of
        Inl e \<Rightarrow> ([], Inl e)
      | Inr mrData \<Rightarrow>
          (case no_races mrData of
             Inl e \<Rightarrow> ([], Inl e)
           | Inr True \<Rightarrow>
               ([], Inr \<lparr>code = 404,
                         body = JObj [(''error'', JStr ''Nenhuma corrida encontrada para este ano''),
                                      (''year'', JStr year)]\<rparr>)
           | Inr False \<Rightarrow>
               (case thenE (get_path mrData [''RaceTable'', ''Races'']) (js_map shape_race) of
                  Inl e \<Rightarrow> ([], Inl e)
                | Inr races \<Rightarrow>
                    (let requestedYear = resolve_year w year;
                         (calls, openf1Data) =
                           (if recent requestedYear then fetch_openf1 w (openf1_url requestedYear)
                            else ([], JNull))
                     in (calls,
                         thenE (obj [
                           (''calendar'', obj [
                              (''requestedYear'',
                                 thenE (get_path mrData [''RaceTable'', ''season''])
                                   (\<lambda>season. Inr (js_or season (JStr year)))),
                              (''totalRaces'', Inr (JNum (of_nat (length races)))),
                              (''races'', Inr (JArr races))]),
                           (''openf1Data'', Inr openf1Data),
                           (''sources'', obj [
                              (''ergast'', Inr (JStr (ergast_url year []))),
                              (''openf1'',
                                 Inr (if recent requestedYear
                                      then JStr (openf1_url requestedYear) else JNull))])])
                         (\<lambda>b. Inr \<lparr>code = 200, body = b\<rparr>))))))"

definition calendar :: "world \<Rightarrow> string \<Rightarrow> string list \<times> reply" where
  "calendar w year =
     handler w year (ergast_url year []) ''Erro ao buscar dados da Ergast API''
       (calendar_rest w year)"

section \<open>Drivers and constructors\<close>

definition drivers_rest :: "js \<Rightarrow> string list \<times> (exn + reply)" where
  "drivers_rest data =
     ([],
      thenE (thenE (get_path data [''MRData'', ''DriverTable'', ''Drivers'']) (js_map shape_driver))
        (\<lambda>drivers.
           thenE (obj [
             (''season'', get_path data [''MRData'', ''DriverTable'', ''season'']),
             (''totalDrivers'', Inr (JNum (of_nat (length drivers)))),
             (''drivers'', Inr (JArr drivers))])
           (\<lambda>b. Inr \<lparr>code = 200, body = b\<rparr>)))"

definition drivers :: "world \<Rightarrow> string \<Rightarrow> string list \<times> reply" where
  "drivers w year =
     handler w year (ergast_url year ''/drivers'') ''Erro ao buscar dados dos pilotos''
       drivers_rest"

definition constructors_rest :: "js \<Rightarrow> string list \<times> (exn + reply)" where
  "constructors_rest data =
     ([],
      thenE (thenE (get_path data [''MRData'', ''ConstructorTable'', ''Constructors''])
               (js_map shape_constructor))
        (\<lambda>constructors.
           thenE (obj [
             (''season'', get_path data [''MRData'', ''ConstructorTable'', ''season'']),
             (''totalConstructors'', Inr (JNum (of_nat (length constructors)))),
             (''constructors'', Inr (JArr constructors))])
           (\<lambda>b. Inr \<lparr>code = 200, body = b\<rparr>)))"

definition constructors :: "world \<Rightarrow> string \<Rightarrow> string list \<times> reply" where
  "constructors w year =
     handler w year (ergast_url year ''/constructors'') ''Erro ao buscar dados das equipes''
       constructors_rest"

section \<open>Standings\<close>

definition no_standings_message :: string where
  "no_standings_message =
     ''Classifica'' @ [CHR 0xC3, CHR 0xA7, CHR 0xC3, CHR 0xA3] @ ''o n''
     @ [CHR 0xC3, CHR 0xA3] @ ''o dispon'' @ [CHR 0xC3, CHR 0xAD] @ ''vel para este ano''"

text \<open>
  The remainder of both standings handlers; they differ in the property of the standings
  list that holds the entries and in the shaper of an entry. \<open>standings_reply\<close> is the
  call of \<^verbatim>\<open>res.json\<close> on the standings list chosen.
\<close>

definition standings_reply :: "string \<Rightarrow> (js \<Rightarrow> exn + js) \<Rightarrow> js \<Rightarrow> exn + reply" where
  "standings_reply entries shape standingsList =
     thenE (obj [
       (''season'', get_prop standingsList ''season''),
       (''round'', get_prop standingsList ''round''),
       (''standings'',
          js_array (thenE (get_prop standingsList entries) (js_map shape)))])
     (\<lambda>b. Inr \<lparr>code = 200, body = b\<rparr>)"

definition standings_rest ::
  "string \<Rightarrow> (js \<Rightarrow> exn + js) \<Rightarrow> js \<Rightarrow> string list \<times> (exn + reply)" where
  "standings_rest entries shape data =
     ([],
      thenE (get_prop data ''MRData'') (\<lambda>mrData.
        let standingsLists = get_prop_opt (get_prop_opt mrData ''StandingsTable'') ''StandingsLists''
        in if \<not> truthy standingsLists
              \<or> get_prop standingsLists ''length'' = Inr (JNum 0)
           then Inr \<lparr>code = 404, body = JObj [(''error'', JStr no_standings_message)]\<rparr>
           else
             thenE (get_first standingsLists) (\<lambda>standingsList.
               standings_reply entries shape standingsList)))"

definition standings_failure :: "string \<Rightarrow> string" where
  "standings_failure who =
     ''Erro ao buscar classifica'' @ [CHR 0xC3, CHR 0xA7, CHR 0xC3, CHR 0xA3] @ ''o de '' @ who"

definition standings_drivers :: "world \<Rightarrow> string \<Rightarrow> string list \<times> reply" where
  "standings_drivers w year =
     handler w year (ergast_url year ''/driverStandings'') (standings_failure ''pilotos'')
       (standings_rest ''DriverStandings'' shape_driver_standing)"

definition standings_constructors :: "world \<Rightarrow> string \<Rightarrow> string list \<times> reply" where
  "standings_constructors w year =
     handler w year (ergast_url year ''/constructorStandings'') (standings_failure ''construtores'')
       (standings_rest ''ConstructorStandings'' shape_constructor_standing)"

text \<open>The value the calendar handler gives to \<^verbatim>\<open>res.json\<close> when nothing threw,
  and the part of the handler between the shaping and that call; both are used to state
  what \<open>calendar_rest\<close> computes.\<close>

definition calendar_body :: "world \<Rightarrow> string \<Rightarrow> js \<Rightarrow> js list \<Rightarrow> js \<Rightarrow> js" where
  "calendar_body w year season races openf1Data =
     JObj [(''calendar'',
            JObj [(''requestedYear'', js_or season (JStr year)),
                  (''totalRaces'', JNum (of_nat (length races))),
                  (''races'', JArr races)]),
           (''openf1Data'', openf1Data),
           (''sources'',
            JObj [(''ergast'', JStr (ergast_url year [])),
                  (''openf1'',
                   if recent (resolve_year w year) then JStr (openf1_url (resolve_year w year))
                   else JNull)])]"

definition optional_part :: "world \<Rightarrow> string \<Rightarrow> string list \<times> js" where
  "optional_part w year =
     (if recent (resolve_year w year) then fetch_openf1 w (openf1_url (resolve_year w year))
      else ([], JNull))"

text \<open>The three ways the optional fetch fails: \<^verbatim>\<open>fetch\<close> rejects, the status
  is outside 2xx, or \<^verbatim>\<open>json()\<close> rejects.\<close>

definition optional_fails :: "exn + upstream \<Rightarrow> bool" where
  "optional_fails outcome =
     (case outcome of Inl e \<Rightarrow> True | Inr r \<Rightarrow> \<not> ok r \<or> isl (json r))"

section \<open>Sample requests\<close>

text \<open>One race of the 2024 season as Ergast gives it, a payload holding it, and a world
  whose Ergast host and whose other host each give one fixed outcome.\<close>

definition sample_race :: js where
  "sample_race =
     JObj [(''season'', JStr ''2024''), (''round'', JStr ''1''),
           (''url'', JStr ''https://en.wikipedia.org/wiki/2024_Bahrain_Grand_Prix''),
           (''raceName'', JStr ''Bahrain Grand Prix''),
           (''Circuit'',
            JObj [(''circuitId'', JStr ''bahrain''),
                  (''circuitName'', JStr ''Bahrain International Circuit''),
                  (''Location'',
                   JObj [(''lat'', JStr ''26.0325''), (''long'', JStr ''50.5106''),
                         (''locality'', JStr ''Sakhir''), (''country'', JStr ''Bahrain'')])]),
           (''date'', JStr ''2024-03-02''), (''time'', JStr ''15:00:00Z''),
           (''FirstPractice'', JObj [(''date'', JStr ''2024-02-29''), (''time'', JStr ''11:30:00Z'')]),
           (''Qualifying'', JObj [(''date'', JStr ''2024-03-01''), (''time'', JStr ''16:00:00Z'')])]"

definition sample_payload :: js where
  "sample_payload =
     JObj [(''MRData'',
            JObj [(''RaceTable'',
                   JObj [(''season'', JStr ''2024''), (''Races'', JArr [sample_race])])])]"

definition sample_world :: "exn + upstream \<Rightarrow> exn + upstream \<Rightarrow> world" where
  "sample_world mandatory optional =
     \<lparr>boot_year = 2026, now_year = 2026,
      fetch = (\<lambda>url. if take 18 url = ''https://ergast.com'' then mandatory else optional)\<rparr>"

text \<open>Answers of the upstreams used below.\<close>

definition mocked_500 :: "exn + upstream" where
  "mocked_500 = Inr \<lparr>status = 500, json = Inr (JObj [(''detail'', JStr ''Internal Server Error'')])\<rparr>"

definition sample_ok :: "exn + upstream" where
  "sample_ok = Inr \<lparr>status = 200, json = Inr sample_payload\<rparr>"

definition mocked_404 :: "exn + upstream" where
  "mocked_404 = Inr \<lparr>status = 404, json = Inl (Rejected ''Unexpected token < in JSON at position 0'')\<rparr>"

definition empty_payload :: "exn + upstream" where
  "empty_payload = Inr \<lparr>status = 200, json = Inr (JObj [])\<rparr>"

text \<open>A standings list of the 2022 season, and the Ergast answer around a value of
  \<^verbatim>\<open>StandingsLists\<close>.\<close>

definition standings_2022 :: js where
  "standings_2022 =
     JObj [(''season'', JStr ''2022''), (''round'', JStr ''22''),
           (''DriverStandings'',
            JArr [JObj [(''position'', JStr ''1''), (''positionText'', JStr ''1''),
                        (''points'', JStr ''454''), (''wins'', JStr ''15''),
                        (''Driver'',
                         JObj [(''driverId'', JStr ''max_verstappen''), (''code'', JStr ''VER''),
                               (''givenName'', JStr ''Max''), (''familyName'', JStr ''Verstappen''),
                               (''nationality'', JStr ''Dutch'')]),
                        (''Constructors'',
                         JArr [JObj [(''constructorId'', JStr ''red_bull''),
                                     (''name'', JStr ''Red Bull'')]])]])]"

definition standings_payload :: "js \<Rightarrow> exn + upstream" where
  "standings_payload standingsLists =
     Inr \<lparr>status = 200,
          json = Inr (JObj [(''MRData'',
                             JObj [(''StandingsTable'',
                                    JObj [(''StandingsLists'', standingsLists)])])])\<rparr>"

definition no_drivers :: "exn + upstream" where
  "no_drivers =
     Inr \<lparr>status = 200,
          json = Inr (JObj [(''MRData'',
                             JObj [(''DriverTable'',
                                    JObj [(''season'', JStr ''2024''), (''Drivers'', JArr [])])])])\<rparr>"

definition no_driver_table :: "exn + upstream" where
  "no_driver_table = Inr \<lparr>status = 200, json = Inr (JObj [(''MRData'', JObj [])])\<rparr>"

definition no_constructors :: "exn + upstream" where
  "no_constructors =
     Inr \<lparr>status = 200,
          json = Inr (JObj [(''MRData'',
                             JObj [(''ConstructorTable'',
                                    JObj [(''season'', JStr ''2024''),
                                          (''Constructors'', JArr [])])])])\<rparr>"

section \<open>Notions used in the statements\<close>

text \<open>Null or undefined; a race record on which a read of \<^verbatim>\<open>race.Circuit.x\<close> or
  \<^verbatim>\<open>race.Circuit.Location.x\<close> throws; a session of a race after shaping; the
  session properties of the upstream and the keys they are shaped to.\<close>

definition nullish :: "js \<Rightarrow> bool" where
  "nullish v = (v = JUndefined \<or> v = JNull)"

definition lacks_circuit :: "js \<Rightarrow> bool" where
  "lacks_circuit race =
     (nullish (get_prop_opt race ''Circuit'')
      \<or> nullish (get_prop_opt (get_prop_opt race ''Circuit'') ''Location''))"

definition shaped_session :: "js \<Rightarrow> string \<Rightarrow> exn + js" where
  "shaped_session race k = thenE (shape_race race) (\<lambda>shaped. get_path shaped [''sessions'', k])"

definition false_practice_race :: js where
  "false_practice_race =
     JObj [(''season'', JStr ''2024''), (''round'', JStr ''1''),
           (''raceName'', JStr ''Bahrain Grand Prix''),
           (''Circuit'', JObj [(''circuitId'', JStr ''bahrain''), (''Location'', JObj [])]),
           (''date'', JStr ''2024-03-02''),
           (''FirstPractice'', JBool False)]"

definition session_keys :: "(string \<times> string) list" where
  "session_keys =
     [(''FirstPractice'', ''firstPractice''), (''SecondPractice'', ''secondPractice''),
      (''ThirdPractice'', ''thirdPractice''), (''Qualifying'', ''qualifying''),
      (''Sprint'', ''sprint'')]"

definition no_circuit_race :: js where
  "no_circuit_race =
     JObj [(''season'', JStr ''2024''), (''round'', JStr ''2''),
           (''raceName'', JStr ''Saudi Arabian Grand Prix''), (''date'', JStr ''2024-03-09'')]"

definition races_payload :: "js list \<Rightarrow> exn + upstream" where
  "races_payload rs =
     Inr \<lparr>status = 200,
          json = Inr (JObj [(''MRData'',
                             JObj [(''RaceTable'',
                                    JObj [(''season'', JStr ''2024''), (''Races'', JArr rs)])])])\<rparr>"

section \<open>The year validator\<close>

lemma digit_not_space: "is_digit c \<Longrightarrow> \<not> is_space c"
  by (auto simp: is_digit_def is_space_def)

lemma digit_not_sign: "is_digit c \<Longrightarrow> c \<noteq> CHR ''-'' \<and> c \<noteq> CHR ''+''"
  by (auto simp: is_digit_def)

lemma four_digits_cases:
  "four_digits s \<longleftrightarrow> (\<exists>a b c d. s = [a, b, c, d] \<and> is_digit a \<and> is_digit b \<and> is_digit c \<and> is_digit d)"
proof
  assume h: "four_digits s"
  then have len: "length s = 4" by (simp add: four_digits_def)
  then obtain a b c d where s: "s = [a, b, c, d]"
    by (auto simp: length_Suc_conv numeral_eq_Suc)
  with h show "\<exists>a b c d. s = [a, b, c, d] \<and> is_digit a \<and> is_digit b \<and> is_digit c \<and> is_digit d"
    by (simp add: four_digits_def)
next
  assume "\<exists>a b c d. s = [a, b, c, d] \<and> is_digit a \<and> is_digit b \<and> is_digit c \<and> is_digit d"
  then show "four_digits s" by (auto simp: four_digits_def)
qed

lemma parseInt_digits:
  assumes "is_digit a" "list_all is_digit s"
  shows "parseInt (a # s) = Some (int (dec (a # s)))"
proof -
  have ns: "\<not> is_space a" using assms(1) by (rule digit_not_space)
  have sg: "a \<noteq> CHR ''-''" "a \<noteq> CHR ''+''" using digit_not_sign [OF assms(1)] by simp_all
  have tw: "takeWhile is_digit (a # s) = a # s"
    using assms by (simp add: list_all_iff)
  have dw: "dropWhile is_space (a # s) = a # s" using ns by simp
  show ?thesis
    unfolding parseInt_def Let_def dw by (simp add: sg tw del: takeWhile.simps)
qed

lemma parseInt_four_digits: "four_digits s \<Longrightarrow> parseInt s = Some (int (dec s))"
  unfolding four_digits_def by (cases s) (simp_all add: parseInt_digits)

lemma dec_four: "dec [a, b, c, d] = 1000 * digit_val a + 100 * digit_val b + 10 * digit_val c + digit_val d"
  by (simp add: dec_def)

lemma show_nat_nonempty: "show_nat n \<noteq> []"
  by (subst show_nat.simps) simp

text \<open>
  C3. \<open>validateYear\<close> answers valid exactly for the token \<^verbatim>\<open>current\<close> and for
  the tokens of four decimal digits whose value lies between 1950 and the year after the
  calendar year (the one read when the module was loaded); every other token is invalid
  and comes with an error message that is not empty.
\<close>

theorem validateYear_characterisation:
  "(valid (validateYear load_year year) \<longleftrightarrow>
      year = ''current'' \<or>
      (\<exists>a b c d. year = [a, b, c, d] \<and> is_digit a \<and> is_digit b \<and> is_digit c \<and> is_digit d
         \<and> 1950 \<le> int (1000 * digit_val a + 100 * digit_val b + 10 * digit_val c + digit_val d)
         \<and> int (1000 * digit_val a + 100 * digit_val b + 10 * digit_val c + digit_val d) \<le> load_year + 1))
   \<and> (\<not> valid (validateYear load_year year) \<longrightarrow>
        (\<exists>m. error (validateYear load_year year) = Some m \<and> m \<noteq> []))"
  (is "(?V \<longleftrightarrow> ?C \<or> ?R) \<and> (\<not> ?V \<longrightarrow> ?E)")
proof (cases "year = ''current''")
  case True
  then have "?V" by (simp add: validateYear_def)
  with True show ?thesis by simp
next
  case nc: False
  show ?thesis
  proof (cases "four_digits year")
    case False
    have eq: "validateYear load_year year = \<lparr>valid = False, error = Some invalid_shape_message\<rparr>"
      using nc False by (simp add: validateYear_def Let_def)
    have ne: "invalid_shape_message \<noteq> []" by (simp add: invalid_shape_message_def)
    have nv: "\<not> ?V" by (simp add: eq)
    have e: "?E" by (simp add: eq ne)
    have nr: "\<not> ?R" using False four_digits_cases [of year] by blast
    from nv nc nr have "?V \<longleftrightarrow> ?C \<or> ?R" by simp
    moreover from e have "\<not> ?V \<longrightarrow> ?E" by (rule impI)
    ultimately show ?thesis by (rule conjI)
  next
    case True
    then obtain a b c d where y: "year = [a, b, c, d]" and dg: "is_digit a" "is_digit b" "is_digit c" "is_digit d"
      using four_digits_cases [of year] by blast
    define n where "n = int (1000 * digit_val a + 100 * digit_val b + 10 * digit_val c + digit_val d)"
    have p: "parseInt year = Some n"
      using parseInt_four_digits [OF True] by (simp only: y dec_four n_def)
    have v: "?V \<longleftrightarrow> 1950 \<le> n \<and> n \<le> load_year + 1"
      by (simp add: validateYear_def Let_def nc True p F1_MIN_YEAR_def F1_MAX_YEAR_def not_less)
    have e: "\<not> ?V \<longrightarrow> ?E"
      by (simp add: validateYear_def Let_def nc True p F1_MIN_YEAR_def F1_MAX_YEAR_def)
    have r: "?R \<longleftrightarrow> 1950 \<le> n \<and> n \<le> load_year + 1"
      by (simp add: y n_def dg)
    from v r nc have "?V \<longleftrightarrow> ?C \<or> ?R" by (simp only: simp_thms)
    then show ?thesis using e by (rule conjI)
  qed
qed

theorem validateYear_characterisation_witness:
  "valid (validateYear 2026 ''2024'')
   \<and> \<not> valid (validateYear 2026 ''1949'')
   \<and> \<not> valid (validateYear 2026 ''99'')
   \<and> (\<exists>m. error (validateYear 2026 ''99'') = Some m \<and> m \<noteq> [])"
proof -
  have a: "valid (validateYear 2026 ''2024'')"
    using validateYear_characterisation [of 2026 "''2024''"]
    by (simp add: is_digit_def digit_val_def)
  have b: "\<not> valid (validateYear 2026 ''1949'')"
    using validateYear_characterisation [of 2026 "''1949''"]
    by (simp add: is_digit_def digit_val_def)
  have c: "\<not> valid (validateYear 2026 ''99'')"
    using validateYear_characterisation [of 2026 "''99''"] by simp
  have d: "\<exists>m. error (validateYear 2026 ''99'') = Some m \<and> m \<noteq> []"
    using c validateYear_characterisation [of 2026 "''99''"] by blast
  from a b c d show ?thesis by blast
qed

section \<open>The frame of the handlers\<close>

lemma thenE_Inr [simp]: "thenE (Inr x) f = f x"
  by (simp add: thenE_def)

lemma thenE_Inl [simp]: "thenE (Inl e) f = Inl e"
  by (simp add: thenE_def)

lemma thenE_eq_Inr: "thenE m f = Inr y \<longleftrightarrow> (\<exists>x. m = Inr x \<and> f x = Inr y)"
  by (cases m) simp_all

lemma get_prop_JArr_obj: "get_prop v p = Inr (JArr xs) \<Longrightarrow> \<exists>kvs. v = JObj kvs"
  by (cases v) (simp_all split: if_splits)

lemma get_prop_obj_total: "\<exists>x. get_prop (JObj kvs) p = Inr x"
  by simp

lemma handler_invalid:
  "\<not> valid (validateYear (boot_year w) year) \<Longrightarrow>
   handler w year url failure rest =
     ([], \<lparr>code = 400, body = JObj [(''error'', js_of_option (error (validateYear (boot_year w) year)))]\<rparr>)"
  by (simp add: handler_def Let_def)

lemma handler_rejected:
  "valid (validateYear (boot_year w) year) \<Longrightarrow> fetch w url = Inl e \<Longrightarrow>
   handler w year url failure rest = ([url], internal_error e)"
  by (simp add: handler_def Let_def)

lemma handler_not_ok:
  "valid (validateYear (boot_year w) year) \<Longrightarrow> fetch w url = Inr r \<Longrightarrow> \<not> ok r \<Longrightarrow>
   handler w year url failure rest =
     ([url], \<lparr>code = status r,
              body = JObj [(''error'', JStr failure), (''status'', JNum (of_nat (status r)))]\<rparr>)"
  by (simp add: handler_def Let_def)

lemma handler_unparsed:
  "valid (validateYear (boot_year w) year) \<Longrightarrow> fetch w url = Inr r \<Longrightarrow> ok r \<Longrightarrow>
   json r = Inl e \<Longrightarrow>
   handler w year url failure rest = ([url], internal_error e)"
  by (simp add: handler_def Let_def)

lemma handler_data:
  "valid (validateYear (boot_year w) year) \<Longrightarrow> fetch w url = Inr r \<Longrightarrow> ok r \<Longrightarrow>
   json r = Inr data \<Longrightarrow>
   handler w year url failure rest =
     (url # fst (rest data),
      case snd (rest data) of Inl e \<Rightarrow> internal_error e | Inr rep \<Rightarrow> rep)"
  by (simp add: handler_def Let_def split: prod.splits sum.splits)

text \<open>A reply with status 200 comes from the remainder of the try block only.\<close>

lemma handler_200:
  assumes "code (snd (handler w year url failure rest)) = 200"
  shows "\<exists>r data rep. valid (validateYear (boot_year w) year) \<and> fetch w url = Inr r \<and> ok r
           \<and> json r = Inr data \<and> snd (rest data) = Inr rep \<and> code rep = 200
           \<and> handler w year url failure rest = (url # fst (rest data), rep)"
  using assms
  by (auto simp: handler_def Let_def internal_error_def ok_def
           split: if_splits sum.splits prod.splits)

section \<open>The calendar endpoint: what it replies\<close>

lemma races_path:
  assumes "get_path data [''MRData'', ''RaceTable'', ''Races''] = Inr (JArr rs)"
  shows "\<exists>mrData kvs. get_prop data ''MRData'' = Inr mrData
           \<and> get_prop mrData ''RaceTable'' = Inr (JObj kvs)
           \<and> map_of kvs ''Races'' = Some (JArr rs)"
proof -
  from assms obtain mrData where m: "get_prop data ''MRData'' = Inr mrData"
    and 1: "get_path mrData [''RaceTable'', ''Races''] = Inr (JArr rs)"
    by (auto simp: thenE_eq_Inr)
  from 1 obtain rt where t: "get_prop mrData ''RaceTable'' = Inr rt"
    and 2: "get_prop rt ''Races'' = Inr (JArr rs)"
    by (auto simp: thenE_eq_Inr)
  from 2 obtain kvs where k: "rt = JObj kvs" using get_prop_JArr_obj by blast
  with 2 have "map_of kvs ''Races'' = Some (JArr rs)"
    by (simp split: option.splits)
  with m t k show ?thesis by blast
qed

lemma calendar_rest_success:
  assumes "get_path data [''MRData'', ''RaceTable'', ''Races''] = Inr (JArr rs)"
      and "mapE shape_race rs = Inr races"
  shows "\<exists>season. get_path data [''MRData'', ''RaceTable'', ''season''] = Inr season \<and>
         calendar_rest w year data =
           (fst (optional_part w year),
            Inr \<lparr>code = 200,
                 body = calendar_body w year season races (snd (optional_part w year))\<rparr>)"
proof -
  from races_path [OF assms(1)] obtain mrData kvs where
    m: "get_prop data ''MRData'' = Inr mrData" and
    t: "get_prop mrData ''RaceTable'' = Inr (JObj kvs)" and
    k: "map_of kvs ''Races'' = Some (JArr rs)" by blast
  have n: "no_races mrData = Inr False"
    by (simp add: no_races_def t k)
  have r: "thenE (get_path mrData [''RaceTable'', ''Races'']) (js_map shape_race) = Inr races"
    by (simp add: t k assms(2))
  show ?thesis
    unfolding calendar_rest_def
    by (simp add: m n t k assms(2) Let_def obj_def calendar_body_def optional_part_def
             split: prod.splits)
qed

lemma js_map_Inr: "js_map f v = Inr ys \<Longrightarrow> \<exists>xs. v = JArr xs \<and> mapE f xs = Inr ys"
  by (cases v) simp_all

lemma mapE_length: "mapE f xs = Inr ys \<Longrightarrow> length ys = length xs"
  by (induction xs arbitrary: ys) (auto split: sum.splits)

lemma mapE_nth: "mapE f xs = Inr ys \<Longrightarrow> i < length xs \<Longrightarrow> f (xs ! i) = Inr (ys ! i)"
proof (induction xs arbitrary: ys i)
  case Nil
  then show ?case by simp
next
  case (Cons x xs)
  from Cons.prems(1) obtain y ys' where fx: "f x = Inr y" and rest: "mapE f xs = Inr ys'"
    and ys: "ys = y # ys'"
    by (auto split: sum.splits)
  show ?case
  proof (cases i)
    case 0
    then show ?thesis by (simp add: fx ys)
  next
    case (Suc j)
    with Cons.prems(2) have "j < length xs" by simp
    from Cons.IH [OF rest this] show ?thesis by (simp add: Suc ys)
  qed
qed

lemma mapE_Inl: "x \<in> set xs \<Longrightarrow> f x = Inl e \<Longrightarrow> \<exists>e'. mapE f xs = Inl e'"
  by (induction xs) (auto split: sum.splits)

lemma calendar_rest_200:
  assumes "snd (calendar_rest w year data) = Inr rep"
  shows "code rep = 404 \<or>
         (\<exists>rs races. get_path data [''MRData'', ''RaceTable'', ''Races''] = Inr (JArr rs)
            \<and> mapE shape_race rs = Inr races)"
proof (cases "get_prop data ''MRData''")
  case (Inl e)
  with assms show ?thesis by (simp add: calendar_rest_def)
next
  case m: (Inr mrData)
  show ?thesis
  proof (cases "no_races mrData")
    case (Inl e)
    with assms m show ?thesis by (simp add: calendar_rest_def)
  next
    case (Inr b)
    show ?thesis
    proof (cases b)
      case True
      with assms m Inr show ?thesis by (auto simp: calendar_rest_def)
    next
      case False
      show ?thesis
      proof (cases "thenE (get_path mrData [''RaceTable'', ''Races'']) (js_map shape_race)")
        case (Inl e)
        with assms m Inr False show ?thesis by (simp add: calendar_rest_def)
      next
        case r: (Inr races)
        then obtain x where x: "get_path mrData [''RaceTable'', ''Races''] = Inr x"
          and j: "js_map shape_race x = Inr races"
          unfolding thenE_eq_Inr by blast
        from js_map_Inr [OF j] obtain rs where "x = JArr rs" "mapE shape_race rs = Inr races"
          by blast
        with x m have "get_path data [''MRData'', ''RaceTable'', ''Races''] = Inr (JArr rs)
            \<and> mapE shape_race rs = Inr races"
          by simp
        then show ?thesis by blast
      qed
    qed
  qed
qed

lemma calendar_success:
  assumes "valid (validateYear (boot_year w) year)"
      and "fetch w (ergast_url year []) = Inr r" "ok r" "json r = Inr data"
      and "get_path data [''MRData'', ''RaceTable'', ''Races''] = Inr (JArr rs)"
      and "mapE shape_race rs = Inr races"
  shows "\<exists>season. get_path data [''MRData'', ''RaceTable'', ''season''] = Inr season \<and>
           calendar w year =
             (ergast_url year [] # fst (optional_part w year),
              \<lparr>code = 200,
               body = calendar_body w year season races (snd (optional_part w year))\<rparr>)"
proof -
  from calendar_rest_success [OF assms(5,6), of w year] obtain season where
    s: "get_path data [''MRData'', ''RaceTable'', ''season''] = Inr season" and
    c: "calendar_rest w year data =
          (fst (optional_part w year),
           Inr \<lparr>code = 200,
                body = calendar_body w year season races (snd (optional_part w year))\<rparr>)"
    by blast
  have "calendar w year =
          (ergast_url year [] # fst (optional_part w year),
           \<lparr>code = 200,
            body = calendar_body w year season races (snd (optional_part w year))\<rparr>)"
    unfolding calendar_def handler_data [OF assms(1-4)] by (simp add: c)
  with s show ?thesis by blast
qed

lemma calendar_200:
  assumes "code (snd (calendar w year)) = 200"
  shows "\<exists>r data rs races season.
           valid (validateYear (boot_year w) year)
           \<and> fetch w (ergast_url year []) = Inr r \<and> ok r \<and> json r = Inr data
           \<and> get_path data [''MRData'', ''RaceTable'', ''Races''] = Inr (JArr rs)
           \<and> mapE shape_race rs = Inr races
           \<and> calendar w year =
               (ergast_url year [] # fst (optional_part w year),
                \<lparr>code = 200,
                 body = calendar_body w year season races (snd (optional_part w year))\<rparr>)"
proof -
  from handler_200 [OF assms [unfolded calendar_def]] obtain r data rep where
    v: "valid (validateYear (boot_year w) year)" and
    f: "fetch w (ergast_url year []) = Inr r" "ok r" "json r = Inr data" and
    s: "snd (calendar_rest w year data) = Inr rep" and c: "code rep = 200"
    by blast
  from calendar_rest_200 [OF s] c obtain rs races where
    p: "get_path data [''MRData'', ''RaceTable'', ''Races''] = Inr (JArr rs)" and
    m: "mapE shape_race rs = Inr races"
    by auto
  from calendar_success [OF v f p m] v f p m show ?thesis by blast
qed

lemma fetch_openf1_fails:
  "optional_fails (fetch w u) \<Longrightarrow> fetch_openf1 w u = ([u], JNull)"
  by (auto simp: optional_fails_def fetch_openf1_def isl_def split: sum.splits)

lemma calendar_body_total:
  "get_path (calendar_body w year season races d) [''calendar'', ''totalRaces'']
     = Inr (JNum (of_nat (length races)))"
  by (simp add: calendar_body_def)

lemma calendar_body_races:
  "get_path (calendar_body w year season races d) [''calendar'', ''races''] = Inr (JArr races)"
  by (simp add: calendar_body_def)

lemma calendar_body_openf1Data:
  "get_prop (calendar_body w year season races d) ''openf1Data'' = Inr d"
  by (simp add: calendar_body_def)

lemma calendar_body_sources:
  "get_path (calendar_body w year season races d) [''sources'', ''openf1'']
     = Inr (if recent (resolve_year w year) then JStr (openf1_url (resolve_year w year))
            else JNull)"
  by (simp add: calendar_body_def)

lemma handler_calls:
  assumes "\<And>data. fst (rest data) = []"
  shows "set (fst (handler w year url failure rest)) \<subseteq> {url}"
proof (cases "valid (validateYear (boot_year w) year)")
  case False
  then show ?thesis by (simp add: handler_invalid)
next
  case v: True
  show ?thesis
  proof (cases "fetch w url")
    case (Inl e)
    with v show ?thesis by (simp add: handler_rejected)
  next
    case f: (Inr r)
    show ?thesis
    proof (cases "ok r")
      case False
      with v f show ?thesis by (simp add: handler_not_ok)
    next
      case k: True
      show ?thesis
      proof (cases "json r")
        case (Inl e)
        with v f k show ?thesis by (simp add: handler_unparsed)
      next
        case (Inr data)
        with v f k show ?thesis by (simp add: handler_data assms)
      qed
    qed
  qed
qed

text \<open>
  C1. A calendar request whose resolved year is at least 2023, whose mandatory fetch is
  answered ok with a payload whose races are all shaped, and whose optional fetch fails
  (a rejection, a status outside 2xx, or a body that does not parse): the reply has status
  200, \<^verbatim>\<open>totalRaces\<close> is the number of races of the mandatory payload, and
  \<^verbatim>\<open>openf1Data\<close> is null. Both URLs were fetched.
\<close>

theorem optional_failure_swallowed:
  assumes "valid (validateYear (boot_year w) year)"
      and "resolve_year w year = Some y" and "2023 \<le> y"
      and "fetch w (ergast_url year []) = Inr r" and "ok r" and "json r = Inr data"
      and "get_path data [''MRData'', ''RaceTable'', ''Races''] = Inr (JArr rs)"
      and "mapE shape_race rs = Inr races"
      and "optional_fails (fetch w (openf1_url (Some y)))"
  shows "code (snd (calendar w year)) = 200
         \<and> get_path (body (snd (calendar w year))) [''calendar'', ''totalRaces'']
             = Inr (JNum (of_nat (length rs)))
         \<and> get_path (body (snd (calendar w year))) [''calendar'', ''races''] = Inr (JArr races)
         \<and> length races = length rs
         \<and> get_prop (body (snd (calendar w year))) ''openf1Data'' = Inr JNull
         \<and> fst (calendar w year) = [ergast_url year [], openf1_url (Some y)]"
proof -
  have rec: "recent (resolve_year w year)"
    using assms(2,3) by (simp add: recent_def OPENF1_MIN_YEAR_def)
  have opt: "optional_part w year = ([openf1_url (Some y)], JNull)"
    using fetch_openf1_fails [OF assms(9)] rec by (simp add: optional_part_def assms(2))
  from calendar_success [OF assms(1,4,5,6,7,8)] obtain season where
    c: "calendar w year =
          (ergast_url year [] # fst (optional_part w year),
           \<lparr>code = 200,
            body = calendar_body w year season races (snd (optional_part w year))\<rparr>)"
    by blast
  have len: "length races = length rs" using assms(8) by (rule mapE_length)
  show ?thesis
    unfolding c opt
    by (simp add: calendar_body_total calendar_body_races calendar_body_openf1Data len
             del: get_path.simps)
qed

text \<open>
  C2. A calendar request whose resolved year is below 2023 fetches nothing but the Ergast
  URL, whatever the token and the upstreams; and where the reply is the calendar (status
  200), its \<^verbatim>\<open>sources.openf1\<close> is null.
\<close>

theorem no_optional_fetch_before_2023:
  assumes "resolve_year w year = Some y" and "y < 2023"
  shows "set (fst (calendar w year)) \<subseteq> {ergast_url year []}
         \<and> (code (snd (calendar w year)) = 200 \<longrightarrow>
              get_path (body (snd (calendar w year))) [''sources'', ''openf1''] = Inr JNull)"
proof -
  have rec: "\<not> recent (resolve_year w year)"
    using assms by (simp add: recent_def OPENF1_MIN_YEAR_def)
  then have opt: "optional_part w year = ([], JNull)"
    by (simp add: optional_part_def)
  have calls: "fst (calendar_rest w year data) = []" for data
    using rec
    by (simp add: calendar_rest_def Let_def split: sum.splits bool.splits prod.splits)
  have 1: "set (fst (calendar w year)) \<subseteq> {ergast_url year []}"
    unfolding calendar_def using calls by (rule handler_calls)
  have 2: "get_path (body (snd (calendar w year))) [''sources'', ''openf1''] = Inr JNull"
    if "code (snd (calendar w year)) = 200"
  proof -
    from calendar_200 [OF that] obtain season races where
      "calendar w year =
         (ergast_url year [] # fst (optional_part w year),
          \<lparr>code = 200,
           body = calendar_body w year season races (snd (optional_part w year))\<rparr>)"
      by blast
    then show ?thesis
      using rec by (simp add: calendar_body_sources del: get_path.simps)
  qed
  from 1 2 show ?thesis by blast
qed

subsection \<open>The sample requests, evaluated\<close>

lemma valid_2024: "valid (validateYear 2026 ''2024'')"
  by (simp add: validateYear_def Let_def parseInt_def is_space_def is_digit_def dec_def
        digit_val_def four_digits_def F1_MIN_YEAR_def F1_MAX_YEAR_def)

lemma valid_2022: "valid (validateYear 2026 ''2022'')"
  by (simp add: validateYear_def Let_def parseInt_def is_space_def is_digit_def dec_def
        digit_val_def four_digits_def F1_MIN_YEAR_def F1_MAX_YEAR_def)

lemma parseInt_2024: "parseInt ''2024'' = Some 2024"
  by (simp add: parseInt_def Let_def is_space_def is_digit_def dec_def digit_val_def)

lemma parseInt_2022: "parseInt ''2022'' = Some 2022"
  by (simp add: parseInt_def Let_def is_space_def is_digit_def dec_def digit_val_def)

lemma sample_world_ergast:
  "fetch (sample_world mandatory optional) (ergast_url year resource) = mandatory"
  by (simp add: sample_world_def ergast_url_def)

lemma sample_world_openf1:
  "fetch (sample_world mandatory optional) (openf1_url y) = optional"
  by (simp add: sample_world_def openf1_url_def)

lemma sample_races:
  "get_path sample_payload [''MRData'', ''RaceTable'', ''Races''] = Inr (JArr [sample_race])"
  by (simp add: sample_payload_def)

lemma shape_sample_race: "\<exists>shaped. mapE shape_race [sample_race] = Inr [shaped]"
  by (simp add: shape_race_def sample_race_def obj_def or_null_def js_or_def)

theorem optional_failure_swallowed_witness:
  "code (snd (calendar (sample_world sample_ok mocked_500) ''2024'')) = 200
   \<and> get_path (body (snd (calendar (sample_world sample_ok mocked_500) ''2024'')))
        [''calendar'', ''totalRaces''] = Inr (JNum 1)
   \<and> get_prop (body (snd (calendar (sample_world sample_ok mocked_500) ''2024'')))
        ''openf1Data'' = Inr JNull"
proof -
  let ?w = "sample_world sample_ok mocked_500"
  obtain shaped where sh: "mapE shape_race [sample_race] = Inr [shaped]"
    using shape_sample_race by blast
  have v: "valid (validateYear (boot_year ?w) ''2024'')"
    using valid_2024 by (simp add: sample_world_def)
  have y: "resolve_year ?w ''2024'' = Some 2024"
    by (simp add: resolve_year_def parseInt_2024)
  have f: "fetch ?w (ergast_url ''2024'' []) = Inr \<lparr>status = 200, json = Inr sample_payload\<rparr>"
    by (simp add: sample_world_ergast sample_ok_def)
  have k: "ok \<lparr>status = 200, json = Inr sample_payload\<rparr>" by (simp add: ok_def)
  have j: "json \<lparr>status = 200, json = Inr sample_payload\<rparr> = Inr sample_payload" by simp
  have o: "optional_fails (fetch ?w (openf1_url (Some 2024)))"
    by (simp add: sample_world_openf1 mocked_500_def optional_fails_def ok_def)
  from optional_failure_swallowed [OF v y _ f k j sample_races sh o]
  show ?thesis by simp
qed

theorem no_optional_fetch_before_2023_witness:
  "set (fst (calendar (sample_world sample_ok mocked_500) ''2022''))
     \<subseteq> {ergast_url ''2022'' []}
   \<and> code (snd (calendar (sample_world sample_ok mocked_500) ''2022'')) = 200
   \<and> get_path (body (snd (calendar (sample_world sample_ok mocked_500) ''2022'')))
        [''sources'', ''openf1''] = Inr JNull"
proof -
  let ?w = "sample_world sample_ok mocked_500"
  obtain shaped where sh: "mapE shape_race [sample_race] = Inr [shaped]"
    using shape_sample_race by blast
  have v: "valid (validateYear (boot_year ?w) ''2022'')"
    using valid_2022 by (simp add: sample_world_def)
  have y: "resolve_year ?w ''2022'' = Some 2022"
    by (simp add: resolve_year_def parseInt_2022)
  have f: "fetch ?w (ergast_url ''2022'' []) = Inr \<lparr>status = 200, json = Inr sample_payload\<rparr>"
    by (simp add: sample_world_ergast sample_ok_def)
  have k: "ok \<lparr>status = 200, json = Inr sample_payload\<rparr>" by (simp add: ok_def)
  have j: "json \<lparr>status = 200, json = Inr sample_payload\<rparr> = Inr sample_payload" by simp
  from calendar_success [OF v f k j sample_races sh]
  have c: "code (snd (calendar ?w ''2022'')) = 200" by auto
  from no_optional_fetch_before_2023 [OF y] c show ?thesis by simp
qed

subsection \<open>Count and order of the races\<close>

lemma shape_race_round:
  assumes "shape_race race = Inr shaped"
  shows "get_prop shaped ''round'' = get_prop race ''round''"
proof -
  from assms obtain v where "get_prop race ''season'' = Inr v"
    by (auto simp: shape_race_def obj_def thenE_eq_Inr split: sum.splits)
  then obtain x where x: "get_prop race ''round'' = Inr x"
    by (cases race) simp_all
  with assms show ?thesis
    by (auto simp: shape_race_def obj_def thenE_eq_Inr split: sum.splits)
qed

text \<open>
  C9. Every calendar reply with status 200 carries in \<^verbatim>\<open>totalRaces\<close> the length of
  its \<^verbatim>\<open>races\<close>, and \<^verbatim>\<open>races\<close> is the upstream's race list shaped element
  by element, in the upstream's order: the i-th race of the reply is the shaped i-th race
  of \<^verbatim>\<open>MRData.RaceTable.Races\<close> and has its round.
\<close>

theorem calendar_total_and_order:
  assumes "code (snd (calendar w year)) = 200"
  shows "\<exists>r data rs races.
           fetch w (ergast_url year []) = Inr r \<and> json r = Inr data
           \<and> get_path data [''MRData'', ''RaceTable'', ''Races''] = Inr (JArr rs)
           \<and> get_path (body (snd (calendar w year))) [''calendar'', ''races''] = Inr (JArr races)
           \<and> get_path (body (snd (calendar w year))) [''calendar'', ''totalRaces'']
               = Inr (JNum (of_nat (length races)))
           \<and> length races = length rs
           \<and> (\<forall>i < length rs. shape_race (rs ! i) = Inr (races ! i)
                 \<and> get_prop (races ! i) ''round'' = get_prop (rs ! i) ''round'')"
proof -
  from calendar_200 [OF assms] obtain r data rs races season where
    f: "fetch w (ergast_url year []) = Inr r" "json r = Inr data" and
    p: "get_path data [''MRData'', ''RaceTable'', ''Races''] = Inr (JArr rs)" and
    m: "mapE shape_race rs = Inr races" and
    c: "calendar w year =
          (ergast_url year [] # fst (optional_part w year),
           \<lparr>code = 200,
            body = calendar_body w year season races (snd (optional_part w year))\<rparr>)"
    by blast
  have b1: "get_path (body (snd (calendar w year))) [''calendar'', ''races''] = Inr (JArr races)"
    unfolding c by (simp add: calendar_body_races del: get_path.simps)
  have b2: "get_path (body (snd (calendar w year))) [''calendar'', ''totalRaces'']
              = Inr (JNum (of_nat (length races)))"
    unfolding c by (simp add: calendar_body_total del: get_path.simps)
  have len: "length races = length rs" using m by (rule mapE_length)
  have ord: "\<forall>i < length rs. shape_race (rs ! i) = Inr (races ! i)
                 \<and> get_prop (races ! i) ''round'' = get_prop (rs ! i) ''round''"
    using mapE_nth [OF m] shape_race_round by blast
  from f p b1 b2 len ord show ?thesis by blast
qed

lemma sample_calendar_200:
  "code (snd (calendar (sample_world sample_ok optional) ''2024'')) = 200"
proof -
  let ?w = "sample_world sample_ok optional"
  obtain shaped where sh: "mapE shape_race [sample_race] = Inr [shaped]"
    using shape_sample_race by blast
  have v: "valid (validateYear (boot_year ?w) ''2024'')"
    using valid_2024 by (simp add: sample_world_def)
  have f: "fetch ?w (ergast_url ''2024'' []) = Inr \<lparr>status = 200, json = Inr sample_payload\<rparr>"
    by (simp add: sample_world_ergast sample_ok_def)
  have k: "ok \<lparr>status = 200, json = Inr sample_payload\<rparr>" by (simp add: ok_def)
  have j: "json \<lparr>status = 200, json = Inr sample_payload\<rparr> = Inr sample_payload" by simp
  from calendar_success [OF v f k j sample_races sh] show ?thesis by auto
qed

theorem calendar_total_and_order_witness:
  "code (snd (calendar (sample_world sample_ok mocked_500) ''2024'')) = 200
   \<and> (\<exists>races. get_path (body (snd (calendar (sample_world sample_ok mocked_500) ''2024'')))
                  [''calendar'', ''races''] = Inr (JArr races)
        \<and> get_path (body (snd (calendar (sample_world sample_ok mocked_500) ''2024'')))
                  [''calendar'', ''totalRaces''] = Inr (JNum (of_nat (length races)))
        \<and> length races = 1
        \<and> shape_race sample_race = Inr (races ! 0))"
proof -
  let ?w = "sample_world sample_ok mocked_500"
  have c: "code (snd (calendar ?w ''2024'')) = 200" by (rule sample_calendar_200)
  from calendar_total_and_order [OF c] obtain r data rs races where
    f: "fetch ?w (ergast_url ''2024'' []) = Inr r" "json r = Inr data" and
    p: "get_path data [''MRData'', ''RaceTable'', ''Races''] = Inr (JArr rs)" and
    b: "get_path (body (snd (calendar ?w ''2024''))) [''calendar'', ''races''] = Inr (JArr races)"
       "get_path (body (snd (calendar ?w ''2024''))) [''calendar'', ''totalRaces'']
               = Inr (JNum (of_nat (length races)))" and
    l: "length races = length rs" and
    o: "\<forall>i < length rs. shape_race (rs ! i) = Inr (races ! i)
                 \<and> get_prop (races ! i) ''round'' = get_prop (rs ! i) ''round''"
    by blast
  from f have "data = sample_payload"
    by (auto simp: sample_world_ergast sample_ok_def)
  with p have rs: "rs = [sample_race]" by (simp add: sample_races del: get_path.simps)
  from o rs have "shape_race sample_race = Inr (races ! 0)" by simp
  with c b l rs show ?thesis by auto
qed

section \<open>Failures of the mandatory source\<close>

text \<open>
  C4. On each of the five endpoints, when the Ergast fetch is answered with a status
  outside 2xx, the reply has that same status and a body with an \<^verbatim>\<open>error\<close>
  field, and nothing else was fetched, whatever any other URL would have given.
\<close>

theorem mandatory_status_propagated:
  assumes "valid (validateYear (boot_year w) year)"
      and "(endpoint, resource) \<in>
             {(calendar, []), (drivers, ''/drivers''), (constructors, ''/constructors''),
              (standings_drivers, ''/driverStandings''),
              (standings_constructors, ''/constructorStandings'')}"
      and "fetch w (ergast_url year resource) = Inr r"
      and "\<not> ok r"
  shows "code (snd (endpoint w year)) = status r
         \<and> (\<exists>m. get_prop (body (snd (endpoint w year))) ''error'' = Inr (JStr m))
         \<and> fst (endpoint w year) = [ergast_url year resource]"
proof -
  note h = handler_not_ok [OF assms(1) _ assms(4)]
  from assms(2) consider
      (calendar) "endpoint = calendar" "resource = []"
    | (drivers) "endpoint = drivers" "resource = ''/drivers''"
    | (constructors) "endpoint = constructors" "resource = ''/constructors''"
    | (standings_drivers) "endpoint = standings_drivers" "resource = ''/driverStandings''"
    | (standings_constructors) "endpoint = standings_constructors"
        "resource = ''/constructorStandings''"
    by auto
  then show ?thesis
  proof cases
    case calendar
    with assms(3) show ?thesis by (simp add: calendar_def h)
  next
    case drivers
    with assms(3) show ?thesis by (simp add: drivers_def h)
  next
    case constructors
    with assms(3) show ?thesis by (simp add: constructors_def h)
  next
    case standings_drivers
    with assms(3) show ?thesis by (simp add: standings_drivers_def h)
  next
    case standings_constructors
    with assms(3) show ?thesis by (simp add: standings_constructors_def h)
  qed
qed

theorem mandatory_status_propagated_witness:
  "code (snd (drivers (sample_world mocked_404 mocked_500) ''2024'')) = 404
   \<and> (\<exists>m. get_prop (body (snd (drivers (sample_world mocked_404 mocked_500) ''2024'')))
              ''error'' = Inr (JStr m))"
proof -
  let ?w = "sample_world mocked_404 mocked_500"
  let ?r = "\<lparr>status = 404, json = Inl (Rejected ''Unexpected token < in JSON at position 0'')\<rparr>"
  have v: "valid (validateYear (boot_year ?w) ''2024'')"
    using valid_2024 by (simp add: sample_world_def)
  have f: "fetch ?w (ergast_url ''2024'' ''/drivers'') = Inr ?r"
    by (simp add: sample_world_ergast mocked_404_def)
  have k: "\<not> ok ?r" by (simp add: ok_def)
  have m: "(drivers, ''/drivers'') \<in>
             {(calendar, []), (drivers, ''/drivers''), (constructors, ''/constructors''),
              (standings_drivers, ''/driverStandings''),
              (standings_constructors, ''/constructorStandings'')}"
    by simp
  from mandatory_status_propagated [OF v m f k] show ?thesis by simp
qed

text \<open>
  C5. The calendar handler reads \<^verbatim>\<open>mrData.RaceTable\<close> without a check of
  \<^verbatim>\<open>mrData\<close>: for the payload \<^verbatim>\<open>{}\<close>, answered with status 200, the read
  throws and the reply is the 500 of the \<^verbatim>\<open>catch\<close>, not a 404.
\<close>

theorem calendar_without_MRData_500:
  "code (snd (calendar (sample_world empty_payload optional) ''2024'')) = 500
   \<and> get_prop (body (snd (calendar (sample_world empty_payload optional) ''2024''))) ''error''
       = Inr (JStr ''Erro interno do servidor'')"
proof -
  let ?w = "sample_world empty_payload optional"
  have v: "valid (validateYear (boot_year ?w) ''2024'')"
    using valid_2024 by (simp add: sample_world_def)
  have f: "fetch ?w (ergast_url ''2024'' []) = Inr \<lparr>status = 200, json = Inr (JObj [])\<rparr>"
    by (simp add: sample_world_ergast empty_payload_def)
  have k: "ok \<lparr>status = 200, json = Inr (JObj [])\<rparr>" by (simp add: ok_def)
  have j: "json \<lparr>status = 200, json = Inr (JObj [])\<rparr> = Inr (JObj [])" by simp
  have r: "\<exists>e. calendar_rest ?w ''2024'' (JObj []) = ([], Inl e)"
    by (simp add: calendar_rest_def no_races_def)
  then show ?thesis
    unfolding calendar_def handler_data [OF v f k j]
    by (auto simp: internal_error_def)
qed

text \<open>What the check of the container does catch: with \<^verbatim>\<open>MRData\<close> there (not null),
  a missing or falsy \<^verbatim>\<open>RaceTable\<close> or \<^verbatim>\<open>Races\<close> is answered 404.\<close>

lemma calendar_no_races_404:
  assumes "valid (validateYear (boot_year w) year)"
      and "fetch w (ergast_url year []) = Inr r" and "ok r" and "json r = Inr data"
      and "get_prop data ''MRData'' = Inr mrData" and "mrData \<noteq> JUndefined" and "mrData \<noteq> JNull"
      and "\<not> truthy (get_prop_opt mrData ''RaceTable'')
           \<or> \<not> truthy (get_prop_opt (get_prop_opt mrData ''RaceTable'') ''Races'')"
  shows "code (snd (calendar w year)) = 404"
proof -
  have "no_races mrData = Inr True"
    using assms(6,7,8)
    by (cases mrData; cases "get_prop_opt mrData ''RaceTable''")
       (auto simp: no_races_def split: option.splits if_splits)
  then have "calendar_rest w year data =
      ([], Inr \<lparr>code = 404,
                body = JObj [(''error'', JStr ''Nenhuma corrida encontrada para este ano''),
                             (''year'', JStr year)]\<rparr>)"
    by (simp add: calendar_rest_def assms(5))
  then show ?thesis
    unfolding calendar_def handler_data [OF assms(1-4)] by simp
qed

section \<open>Standings: the first list\<close>

lemma standings_rest_404:
  assumes "get_prop data ''MRData'' = Inr mrData"
      and "get_prop_opt (get_prop_opt mrData ''StandingsTable'') ''StandingsLists''
             \<in> {JUndefined, JNull, JArr []}"
  shows "standings_rest entries shape data =
           ([], Inr \<lparr>code = 404, body = JObj [(''error'', JStr no_standings_message)]\<rparr>)"
  using assms by (auto simp: standings_rest_def Let_def)

lemma standings_rest_first:
  assumes "get_prop data ''MRData'' = Inr mrData"
      and "get_prop_opt (get_prop_opt mrData ''StandingsTable'') ''StandingsLists''
             = JArr (standingsList # others)"
  shows "standings_rest entries shape data =
           ([], standings_reply entries shape standingsList)"
  using assms by (simp add: standings_rest_def Let_def)

lemma standings_endpoints:
  assumes "(endpoint, resource, entries, shape) \<in>
             {(standings_drivers, ''/driverStandings'', ''DriverStandings'', shape_driver_standing),
              (standings_constructors, ''/constructorStandings'', ''ConstructorStandings'',
               shape_constructor_standing)}"
  shows "\<exists>failure. endpoint w year =
           handler w year (ergast_url year resource) failure (standings_rest entries shape)"
proof -
  from assms consider
      "endpoint = standings_drivers" "resource = ''/driverStandings''"
      "entries = ''DriverStandings''" "shape = shape_driver_standing"
    | "endpoint = standings_constructors" "resource = ''/constructorStandings''"
      "entries = ''ConstructorStandings''" "shape = shape_constructor_standing"
    by auto
  then show ?thesis
  proof cases
    case 1
    then show ?thesis unfolding standings_drivers_def by blast
  next
    case 2
    then show ?thesis unfolding standings_constructors_def by blast
  qed
qed

text \<open>
  C8. On both standings endpoints, with the Ergast fetch answered ok: where
  \<^verbatim>\<open>StandingsLists\<close> is absent (undefined or null along the optional chain from
  \<^verbatim>\<open>MRData\<close>) or the empty array, the reply is 404; where it is an array with a
  first element, the reply is computed from that element alone, and a reply with status
  200 carries its season, its round and its entries shaped in order.
\<close>

theorem standings_first_list_only:
  assumes "valid (validateYear (boot_year w) year)"
      and "(endpoint, resource, entries, shape) \<in>
             {(standings_drivers, ''/driverStandings'', ''DriverStandings'', shape_driver_standing),
              (standings_constructors, ''/constructorStandings'', ''ConstructorStandings'',
               shape_constructor_standing)}"
      and "fetch w (ergast_url year resource) = Inr r" and "ok r" and "json r = Inr data"
      and "get_prop data ''MRData'' = Inr mrData"
      and "standingsLists = get_prop_opt (get_prop_opt mrData ''StandingsTable'') ''StandingsLists''"
  shows "(standingsLists \<in> {JUndefined, JNull, JArr []} \<longrightarrow> code (snd (endpoint w year)) = 404)
         \<and> (\<forall>standingsList others. standingsLists = JArr (standingsList # others) \<longrightarrow>
               snd (endpoint w year) =
                 (case standings_reply entries shape standingsList of
                    Inl e \<Rightarrow> internal_error e
                  | Inr rep \<Rightarrow> rep)
               \<and> (code (snd (endpoint w year)) = 200 \<longrightarrow>
                    (\<exists>es shaped. get_prop standingsList entries = Inr (JArr es)
                       \<and> mapE shape es = Inr shaped
                       \<and> body (snd (endpoint w year)) =
                           JObj [(''season'', get_prop_opt standingsList ''season''),
                                 (''round'', get_prop_opt standingsList ''round''),
                                 (''standings'', JArr shaped)])))"
proof -
  from standings_endpoints [OF assms(2)] obtain failure where
    e: "endpoint w year =
          handler w year (ergast_url year resource) failure (standings_rest entries shape)"
    by blast
  note h = handler_data [OF assms(1,3,4,5)]
  have a: "code (snd (endpoint w year)) = 404" if "standingsLists \<in> {JUndefined, JNull, JArr []}"
    using standings_rest_404 [OF assms(6) that [unfolded assms(7)]]
    by (simp add: e h)
  have b: "snd (endpoint w year) =
             (case standings_reply entries shape standingsList of
                Inl e \<Rightarrow> internal_error e | Inr rep \<Rightarrow> rep)"
    if "standingsLists = JArr (standingsList # others)" for standingsList others
    using standings_rest_first [OF assms(6) that [unfolded assms(7)]]
    by (simp add: e h)
  have c: "\<exists>es shaped. get_prop standingsList entries = Inr (JArr es)
             \<and> mapE shape es = Inr shaped
             \<and> body (snd (endpoint w year)) =
                 JObj [(''season'', get_prop_opt standingsList ''season''),
                       (''round'', get_prop_opt standingsList ''round''),
                       (''standings'', JArr shaped)]"
    if l: "standingsLists = JArr (standingsList # others)"
      and k: "code (snd (endpoint w year)) = 200" for standingsList others
  proof -
    from k b [OF l] obtain rep where
      r: "standings_reply entries shape standingsList = Inr rep" and
      s: "snd (endpoint w year) = rep"
      by (cases "standings_reply entries shape standingsList")
         (simp_all add: internal_error_def)
    from r obtain season where s1: "get_prop standingsList ''season'' = Inr season"
      by (auto simp: standings_reply_def obj_def thenE_eq_Inr split: sum.splits)
    then have nn: "standingsList \<noteq> JUndefined" "standingsList \<noteq> JNull" by auto
    have s2: "get_prop standingsList ''season'' = Inr (get_prop_opt standingsList ''season'')"
      "get_prop standingsList ''round'' = Inr (get_prop_opt standingsList ''round'')"
      using nn by (cases standingsList; simp)+
    from r s2 obtain shaped where
      m: "thenE (get_prop standingsList entries) (js_map shape) = Inr shaped" and
      b: "rep = \<lparr>code = 200,
                 body = JObj [(''season'', get_prop_opt standingsList ''season''),
                              (''round'', get_prop_opt standingsList ''round''),
                              (''standings'', JArr shaped)]\<rparr>"
      by (auto simp: standings_reply_def obj_def js_array_def thenE_eq_Inr split: sum.splits)
    from m obtain x where "get_prop standingsList entries = Inr x" "js_map shape x = Inr shaped"
      unfolding thenE_eq_Inr by blast
    with js_map_Inr [of shape x shaped] obtain es where
      "get_prop standingsList entries = Inr (JArr es)" "mapE shape es = Inr shaped"
      by blast
    with b s show ?thesis by simp
  qed
  from a b c show ?thesis by blast
qed

lemma standings_2022_reply:
  "\<exists>b. standings_reply ''DriverStandings'' shape_driver_standing standings_2022
         = Inr \<lparr>code = 200, body = b\<rparr>"
  by (simp add: standings_reply_def standings_2022_def obj_def js_array_def
        shape_driver_standing_def shape_standing_constructor_def)

theorem standings_first_list_only_witness:
  "code (snd (standings_drivers (sample_world (standings_payload (JArr [])) mocked_500) ''2022''))
     = 404
   \<and> code (snd (standings_drivers
        (sample_world (standings_payload (JArr [standings_2022, JNull])) mocked_500) ''2022''))
     = 200
   \<and> get_prop (body (snd (standings_drivers
        (sample_world (standings_payload (JArr [standings_2022, JNull])) mocked_500) ''2022'')))
        ''season'' = Inr (JStr ''2022'')"
proof -
  let ?m = "\<lambda>l. JObj [(''StandingsTable'', JObj [(''StandingsLists'', l)])]"
  let ?r = "\<lambda>l. \<lparr>status = 200, json = Inr (JObj [(''MRData'', ?m l)])\<rparr>"
  let ?w = "\<lambda>l. sample_world (standings_payload l) mocked_500"
  have v: "valid (validateYear (boot_year (?w l)) ''2022'')" for l
    using valid_2022 by (simp add: sample_world_def)
  have mem: "(standings_drivers, ''/driverStandings'', ''DriverStandings'', shape_driver_standing) \<in>
             {(standings_drivers, ''/driverStandings'', ''DriverStandings'', shape_driver_standing),
              (standings_constructors, ''/constructorStandings'', ''ConstructorStandings'',
               shape_constructor_standing)}"
    by simp
  have f: "fetch (?w l) (ergast_url ''2022'' ''/driverStandings'') = Inr (?r l)" for l
    by (simp add: sample_world_ergast standings_payload_def)
  have k: "ok (?r l)" for l by (simp add: ok_def)
  have j: "json (?r l) = Inr (JObj [(''MRData'', ?m l)])" for l by simp
  have g: "get_prop (JObj [(''MRData'', ?m l)]) ''MRData'' = Inr (?m l)" for l by simp
  have s: "l = get_prop_opt (get_prop_opt (?m l) ''StandingsTable'') ''StandingsLists''" for l
    by simp
  note t = standings_first_list_only [OF v mem f k j g s]
  have a: "code (snd (standings_drivers (?w (JArr [])) ''2022'')) = 404"
    using t [of "JArr []"] by simp
  let ?e = "snd (standings_drivers (?w (JArr [standings_2022, JNull])) ''2022'')"
  from standings_2022_reply obtain b where
    b: "standings_reply ''DriverStandings'' shape_driver_standing standings_2022
          = Inr \<lparr>code = 200, body = b\<rparr>" by blast
  from t [of "JArr [standings_2022, JNull]"]
  have "?e = (case standings_reply ''DriverStandings'' shape_driver_standing standings_2022 of
                Inl e \<Rightarrow> internal_error e | Inr rep \<Rightarrow> rep)"
    by blast
  then have c: "code ?e = 200" by (simp add: b)
  with t [of "JArr [standings_2022, JNull]"]
  have "\<exists>shaped. body ?e =
          JObj [(''season'', get_prop_opt standings_2022 ''season''),
                (''round'', get_prop_opt standings_2022 ''round''),
                (''standings'', JArr shaped)]"
    by blast
  then have d: "get_prop (body ?e) ''season'' = Inr (JStr ''2022'')"
    by (auto simp: standings_2022_def)
  from a c d show ?thesis by blast
qed

section \<open>Drivers and constructors: empty and missing containers\<close>

lemma table_path:
  assumes "get_path data [''MRData'', table, container] = Inr (JArr xs)"
  shows "\<exists>season. get_path data [''MRData'', table, ''season''] = Inr season"
proof -
  from assms obtain mrData t where m: "get_prop data ''MRData'' = Inr mrData"
    and t: "get_prop mrData table = Inr t" and c: "get_prop t container = Inr (JArr xs)"
    by (auto simp: thenE_eq_Inr)
  from get_prop_JArr_obj [OF c] obtain kvs where "t = JObj kvs" by blast
  with m t show ?thesis by simp
qed

lemma drivers_rest_empty:
  assumes "get_path data [''MRData'', ''DriverTable'', ''Drivers''] = Inr (JArr [])"
  shows "\<exists>season. drivers_rest data =
           ([], Inr \<lparr>code = 200,
                     body = JObj [(''season'', season), (''totalDrivers'', JNum 0),
                                  (''drivers'', JArr [])]\<rparr>)"
proof -
  from table_path [OF assms] obtain season where
    "get_path data [''MRData'', ''DriverTable'', ''season''] = Inr season" by blast
  then show ?thesis
    by (simp add: drivers_rest_def assms obj_def del: get_path.simps)
qed

lemma constructors_rest_empty:
  assumes "get_path data [''MRData'', ''ConstructorTable'', ''Constructors''] = Inr (JArr [])"
  shows "\<exists>season. constructors_rest data =
           ([], Inr \<lparr>code = 200,
                     body = JObj [(''season'', season), (''totalConstructors'', JNum 0),
                                  (''constructors'', JArr [])]\<rparr>)"
proof -
  from table_path [OF assms] obtain season where
    "get_path data [''MRData'', ''ConstructorTable'', ''season''] = Inr season" by blast
  then show ?thesis
    by (simp add: constructors_rest_def assms obj_def del: get_path.simps)
qed

lemma sample_drivers_reply:
  assumes "fetch (sample_world mandatory optional) (ergast_url ''2024'' ''/drivers'') = Inr r"
      and "ok r" and "json r = Inr data"
  shows "drivers (sample_world mandatory optional) ''2024'' =
           (ergast_url ''2024'' ''/drivers'' # fst (drivers_rest data),
            case snd (drivers_rest data) of Inl e \<Rightarrow> internal_error e | Inr rep \<Rightarrow> rep)"
proof -
  have v: "valid (validateYear (boot_year (sample_world mandatory optional)) ''2024'')"
    using valid_2024 by (simp add: sample_world_def)
  show ?thesis unfolding drivers_def by (rule handler_data [OF v assms])
qed

text \<open>
  C6, as stated, fails on the drivers endpoint: an empty \<^verbatim>\<open>Drivers\<close> array, answered
  with status 200, is replied to with status 200 and \<^verbatim>\<open>totalDrivers\<close> 0, not with
  a 404.
\<close>

theorem drivers_empty_container_200:
  "code (snd (drivers (sample_world no_drivers mocked_500) ''2024'')) = 200
   \<and> get_prop (body (snd (drivers (sample_world no_drivers mocked_500) ''2024'')))
        ''totalDrivers'' = Inr (JNum 0)"
proof -
  let ?d = "JObj [(''MRData'', JObj [(''DriverTable'',
                    JObj [(''season'', JStr ''2024''), (''Drivers'', JArr [])])])]"
  have f: "fetch (sample_world no_drivers mocked_500) (ergast_url ''2024'' ''/drivers'')
             = Inr \<lparr>status = 200, json = Inr ?d\<rparr>"
    by (simp add: sample_world_ergast no_drivers_def)
  have k: "ok \<lparr>status = 200, json = Inr ?d\<rparr>" by (simp add: ok_def)
  have j: "json \<lparr>status = 200, json = Inr ?d\<rparr> = Inr ?d" by simp
  have "get_path ?d [''MRData'', ''DriverTable'', ''Drivers''] = Inr (JArr [])" by simp
  from drivers_rest_empty [OF this] show ?thesis
    unfolding sample_drivers_reply [OF f k j] by auto
qed

text \<open>The drivers handler has no check of the container at all: where
  \<^verbatim>\<open>DriverTable\<close> is missing, the read of \<^verbatim>\<open>Drivers\<close> throws and the reply is the
  500 of the \<^verbatim>\<open>catch\<close>.\<close>

lemma drivers_missing_container_500:
  "code (snd (drivers (sample_world no_driver_table mocked_500) ''2024'')) = 500"
proof -
  let ?d = "JObj [(''MRData'', JObj [])]"
  have f: "fetch (sample_world no_driver_table mocked_500) (ergast_url ''2024'' ''/drivers'')
             = Inr \<lparr>status = 200, json = Inr ?d\<rparr>"
    by (simp add: sample_world_ergast no_driver_table_def)
  have k: "ok \<lparr>status = 200, json = Inr ?d\<rparr>" by (simp add: ok_def)
  have j: "json \<lparr>status = 200, json = Inr ?d\<rparr> = Inr ?d" by simp
  show ?thesis
    unfolding sample_drivers_reply [OF f k j]
    by (simp add: drivers_rest_def internal_error_def cannot_read_def)
qed

text \<open>
  C6, amended. With the Ergast fetch answered ok: on both standings endpoints a
  \<^verbatim>\<open>StandingsLists\<close> that is absent or the empty array is replied to with 404; on
  the drivers and the constructors endpoint an empty container is replied to with status
  200, a total of 0 and an empty list, as the calendar endpoint does for an empty race
  list.
\<close>

theorem absent_data_by_resource:
  assumes "valid (validateYear (boot_year w) year)"
      and "fetch w (ergast_url year resource) = Inr r" and "ok r" and "json r = Inr data"
  shows "((endpoint, resource) \<in> {(standings_drivers, ''/driverStandings''),
                                  (standings_constructors, ''/constructorStandings'')}
            \<and> get_prop data ''MRData'' = Inr mrData
            \<and> get_prop_opt (get_prop_opt mrData ''StandingsTable'') ''StandingsLists''
                 \<in> {JUndefined, JNull, JArr []}
          \<longrightarrow> code (snd (endpoint w year)) = 404)
       \<and> (resource = ''/drivers''
            \<and> get_path data [''MRData'', ''DriverTable'', ''Drivers''] = Inr (JArr [])
          \<longrightarrow> code (snd (drivers w year)) = 200
              \<and> get_prop (body (snd (drivers w year))) ''totalDrivers'' = Inr (JNum 0)
              \<and> get_prop (body (snd (drivers w year))) ''drivers'' = Inr (JArr []))
       \<and> (resource = ''/constructors''
            \<and> get_path data [''MRData'', ''ConstructorTable'', ''Constructors''] = Inr (JArr [])
          \<longrightarrow> code (snd (constructors w year)) = 200
              \<and> get_prop (body (snd (constructors w year))) ''totalConstructors'' = Inr (JNum 0)
              \<and> get_prop (body (snd (constructors w year))) ''constructors'' = Inr (JArr []))"
proof -
  note h = handler_data [OF assms]
  have a: "code (snd (endpoint w year)) = 404"
    if m: "(endpoint, resource) \<in> {(standings_drivers, ''/driverStandings''),
                                  (standings_constructors, ''/constructorStandings'')}"
      and g: "get_prop data ''MRData'' = Inr mrData"
      and s: "get_prop_opt (get_prop_opt mrData ''StandingsTable'') ''StandingsLists''
                 \<in> {JUndefined, JNull, JArr []}"
  proof -
    from m consider "endpoint = standings_drivers" "resource = ''/driverStandings''"
      | "endpoint = standings_constructors" "resource = ''/constructorStandings''"
      by auto
    then show ?thesis
    proof cases
      case 1
      then show ?thesis
        using h by (simp add: standings_drivers_def standings_rest_404 [OF g s])
    next
      case 2
      then show ?thesis
        using h by (simp add: standings_constructors_def standings_rest_404 [OF g s])
    qed
  qed
  have b: "code (snd (drivers w year)) = 200
           \<and> get_prop (body (snd (drivers w year))) ''totalDrivers'' = Inr (JNum 0)
           \<and> get_prop (body (snd (drivers w year))) ''drivers'' = Inr (JArr [])"
    if "resource = ''/drivers''"
      and p: "get_path data [''MRData'', ''DriverTable'', ''Drivers''] = Inr (JArr [])"
    using drivers_rest_empty [OF p] h that(1) by (auto simp: drivers_def)
  have c: "code (snd (constructors w year)) = 200
           \<and> get_prop (body (snd (constructors w year))) ''totalConstructors'' = Inr (JNum 0)
           \<and> get_prop (body (snd (constructors w year))) ''constructors'' = Inr (JArr [])"
    if "resource = ''/constructors''"
      and p: "get_path data [''MRData'', ''ConstructorTable'', ''Constructors''] = Inr (JArr [])"
    using constructors_rest_empty [OF p] h that(1) by (auto simp: constructors_def)
  from a b c show ?thesis by blast
qed

theorem absent_data_by_resource_witness:
  "code (snd (standings_constructors
            (sample_world (standings_payload (JArr [])) mocked_500) ''2022'')) = 404
   \<and> code (snd (drivers (sample_world no_drivers mocked_500) ''2024'')) = 200
   \<and> get_prop (body (snd (drivers (sample_world no_drivers mocked_500) ''2024'')))
        ''drivers'' = Inr (JArr [])
   \<and> code (snd (constructors (sample_world no_constructors mocked_500) ''2024'')) = 200
   \<and> get_prop (body (snd (constructors (sample_world no_constructors mocked_500) ''2024'')))
        ''totalConstructors'' = Inr (JNum 0)"
proof -
  have v2: "valid (validateYear (boot_year (sample_world m mocked_500)) ''2022'')" for m
    using valid_2022 by (simp add: sample_world_def)
  have v4: "valid (validateYear (boot_year (sample_world m mocked_500)) ''2024'')" for m
    using valid_2024 by (simp add: sample_world_def)
  have k: "ok \<lparr>status = 200, json = Inr d\<rparr>" for d by (simp add: ok_def)
  have j: "json \<lparr>status = 200, json = Inr d\<rparr> = Inr d" for d by simp
  let ?s = "JObj [(''MRData'', JObj [(''StandingsTable'', JObj [(''StandingsLists'', JArr [])])])]"
  have fs: "fetch (sample_world (standings_payload (JArr [])) mocked_500)
              (ergast_url ''2022'' ''/constructorStandings'') = Inr \<lparr>status = 200, json = Inr ?s\<rparr>"
    by (simp add: sample_world_ergast standings_payload_def)
  have a: "code (snd (standings_constructors
            (sample_world (standings_payload (JArr [])) mocked_500) ''2022'')) = 404"
    using absent_data_by_resource [OF v2 fs k j, of standings_constructors
        "JObj [(''StandingsTable'', JObj [(''StandingsLists'', JArr [])])]"]
    by simp
  let ?d = "JObj [(''MRData'', JObj [(''DriverTable'',
                    JObj [(''season'', JStr ''2024''), (''Drivers'', JArr [])])])]"
  have fd: "fetch (sample_world no_drivers mocked_500) (ergast_url ''2024'' ''/drivers'')
             = Inr \<lparr>status = 200, json = Inr ?d\<rparr>"
    by (simp add: sample_world_ergast no_drivers_def)
  have b: "code (snd (drivers (sample_world no_drivers mocked_500) ''2024'')) = 200
     \<and> get_prop (body (snd (drivers (sample_world no_drivers mocked_500) ''2024'')))
        ''drivers'' = Inr (JArr [])"
    using absent_data_by_resource [OF v4 fd k j] by simp
  let ?c = "JObj [(''MRData'', JObj [(''ConstructorTable'',
                    JObj [(''season'', JStr ''2024''), (''Constructors'', JArr [])])])]"
  have fc: "fetch (sample_world no_constructors mocked_500) (ergast_url ''2024'' ''/constructors'')
             = Inr \<lparr>status = 200, json = Inr ?c\<rparr>"
    by (simp add: sample_world_ergast no_constructors_def)
  have c: "code (snd (constructors (sample_world no_constructors mocked_500) ''2024'')) = 200
     \<and> get_prop (body (snd (constructors (sample_world no_constructors mocked_500) ''2024'')))
        ''totalConstructors'' = Inr (JNum 0)"
    using absent_data_by_resource [OF v4 fc k j] by simp
  from a b c show ?thesis by blast
qed

section \<open>Shaping a race\<close>

lemma get_prop_not_nullish: "\<not> nullish v \<Longrightarrow> get_prop v p = Inr (get_prop_opt v p)"
  by (cases v) (simp_all add: nullish_def)

lemma get_prop_nullish: "nullish v \<Longrightarrow> \<exists>e. get_prop v p = Inl e"
  by (auto simp: nullish_def)

lemma get_prop_opt_nullish: "nullish v \<Longrightarrow> get_prop_opt v p = JUndefined"
  by (auto simp: nullish_def)

lemma js_or_null: "js_or v JNull = (if truthy v then v else JNull)"
  by (simp add: js_or_def)

lemma truthy_iff: "truthy v \<longleftrightarrow> v \<notin> {JUndefined, JNull, JBool False, JNum 0, JStr []}"
  by (cases v) auto

lemma shape_race_success:
  assumes "\<not> nullish race"
      and "\<not> nullish (get_prop_opt race ''Circuit'')"
      and "\<not> nullish (get_prop_opt (get_prop_opt race ''Circuit'') ''Location'')"
  shows "shape_race race =
     Inr (JObj [
       (''season'', get_prop_opt race ''season''),
       (''round'', get_prop_opt race ''round''),
       (''url'', get_prop_opt race ''url''),
       (''raceName'', get_prop_opt race ''raceName''),
       (''date'', get_prop_opt race ''date''),
       (''time'', js_or (get_prop_opt race ''time'') JNull),
       (''circuit'', JObj [
          (''circuitId'', get_prop_opt (get_prop_opt race ''Circuit'') ''circuitId''),
          (''url'', get_prop_opt (get_prop_opt race ''Circuit'') ''url''),
          (''circuitName'', get_prop_opt (get_prop_opt race ''Circuit'') ''circuitName''),
          (''location'', JObj [
             (''lat'', get_prop_opt (get_prop_opt (get_prop_opt race ''Circuit'') ''Location'') ''lat''),
             (''long'', get_prop_opt (get_prop_opt (get_prop_opt race ''Circuit'') ''Location'') ''long''),
             (''locality'', get_prop_opt (get_prop_opt (get_prop_opt race ''Circuit'') ''Location'') ''locality''),
             (''country'', get_prop_opt (get_prop_opt (get_prop_opt race ''Circuit'') ''Location'') ''country'')])]),
       (''sessions'', JObj [
          (''firstPractice'', js_or (get_prop_opt race ''FirstPractice'') JNull),
          (''secondPractice'', js_or (get_prop_opt race ''SecondPractice'') JNull),
          (''thirdPractice'', js_or (get_prop_opt race ''ThirdPractice'') JNull),
          (''qualifying'', js_or (get_prop_opt race ''Qualifying'') JNull),
          (''sprint'', js_or (get_prop_opt race ''Sprint'') JNull)])])"
  unfolding shape_race_def obj_def or_null_def
  by (simp add: get_prop_not_nullish [OF assms(1)] get_prop_not_nullish [OF assms(2)]
        get_prop_not_nullish [OF assms(3)])

lemma shape_race_failure:
  assumes "nullish race \<or> lacks_circuit race"
  shows "\<exists>e. shape_race race = Inl e"
proof (cases "nullish race")
  case True
  then obtain e where "get_prop race ''season'' = Inl e" using get_prop_nullish by blast
  then show ?thesis by (simp add: shape_race_def obj_def)
next
  case r: False
  with assms have l: "lacks_circuit race" by simp
  note g = get_prop_not_nullish [OF r]
  show ?thesis
  proof (cases "nullish (get_prop_opt race ''Circuit'')")
    case True
    then obtain e where "get_prop (get_prop_opt race ''Circuit'') ''circuitId'' = Inl e"
      using get_prop_nullish by blast
    then show ?thesis by (simp add: shape_race_def obj_def or_null_def g)
  next
    case c: False
    with l have "nullish (get_prop_opt (get_prop_opt race ''Circuit'') ''Location'')"
      by (simp add: lacks_circuit_def)
    then obtain e where
      "get_prop (get_prop_opt (get_prop_opt race ''Circuit'') ''Location'') ''lat'' = Inl e"
      using get_prop_nullish by blast
    then show ?thesis
      by (simp add: shape_race_def obj_def or_null_def g get_prop_not_nullish [OF c])
  qed
qed

lemma shape_race_total_iff:
  "(\<exists>shaped. shape_race race = Inr shaped) \<longleftrightarrow> \<not> nullish race \<and> \<not> lacks_circuit race"
proof
  assume "\<exists>shaped. shape_race race = Inr shaped"
  with shape_race_failure [of race] show "\<not> nullish race \<and> \<not> lacks_circuit race" by auto
next
  assume "\<not> nullish race \<and> \<not> lacks_circuit race"
  then show "\<exists>shaped. shape_race race = Inr shaped"
    using shape_race_success [of race] by (simp add: lacks_circuit_def)
qed

text \<open>
  C7, as stated, fails for a session field that is present with a falsy value other than
  null and the empty string: \<^verbatim>\<open>FirstPractice: false\<close> is shaped to
  \<^verbatim>\<open>firstPractice: null\<close>, so the value is not preserved.
\<close>

theorem falsy_session_becomes_null:
  "get_prop false_practice_race ''FirstPractice'' = Inr (JBool False)
   \<and> shaped_session false_practice_race ''firstPractice'' = Inr JNull"
  by (simp add: false_practice_race_def shaped_session_def shape_race_def obj_def or_null_def
        js_or_def)

text \<open>
  C7, amended. A shaped race has the five session keys, in order, and
  \<^verbatim>\<open>time\<close>; under each key stands the upstream value where that is truthy, and null
  where it is missing or falsy (null, false, 0, the empty string). No key is omitted.
\<close>

theorem sessions_preserved_or_null:
  assumes "shape_race race = Inr shaped"
  shows "\<exists>props sessions.
           shaped = JObj props
           \<and> map_of props ''sessions'' = Some (JObj sessions)
           \<and> map fst sessions = map snd session_keys
           \<and> (\<forall>(upstream_key, key) \<in> set session_keys.
                 (truthy (get_prop_opt race upstream_key) \<longrightarrow>
                    map_of sessions key = Some (get_prop_opt race upstream_key))
                 \<and> (get_prop_opt race upstream_key
                       \<in> {JUndefined, JNull, JBool False, JNum 0, JStr []} \<longrightarrow>
                    map_of sessions key = Some JNull))
           \<and> (truthy (get_prop_opt race ''time'') \<longrightarrow>
                 map_of props ''time'' = Some (get_prop_opt race ''time''))
           \<and> (get_prop_opt race ''time'' \<in> {JUndefined, JNull, JBool False, JNum 0, JStr []} \<longrightarrow>
                 map_of props ''time'' = Some JNull)"
proof -
  from assms shape_race_total_iff [of race]
  have n: "\<not> nullish race" "\<not> nullish (get_prop_opt race ''Circuit'')"
    "\<not> nullish (get_prop_opt (get_prop_opt race ''Circuit'') ''Location'')"
    by (auto simp: lacks_circuit_def)
  note s = assms [unfolded shape_race_success [OF n]]
  let ?sessions = "[(''firstPractice'', js_or (get_prop_opt race ''FirstPractice'') JNull),
          (''secondPractice'', js_or (get_prop_opt race ''SecondPractice'') JNull),
          (''thirdPractice'', js_or (get_prop_opt race ''ThirdPractice'') JNull),
          (''qualifying'', js_or (get_prop_opt race ''Qualifying'') JNull),
          (''sprint'', js_or (get_prop_opt race ''Sprint'') JNull)]"
  from s obtain props where p: "shaped = JObj props"
    and ps: "map_of props ''sessions'' = Some (JObj ?sessions)"
    and pt: "map_of props ''time'' = Some (js_or (get_prop_opt race ''time'') JNull)"
    by auto
  have k: "map fst ?sessions = map snd session_keys" by (simp add: session_keys_def)
  have f: "\<not> truthy v" if "v \<in> {JUndefined, JNull, JBool False, JNum 0, JStr []}" for v
    using that by (simp add: truthy_iff)
  have e: "\<forall>(upstream_key, key) \<in> set session_keys.
             (truthy (get_prop_opt race upstream_key) \<longrightarrow>
                map_of ?sessions key = Some (get_prop_opt race upstream_key))
             \<and> (get_prop_opt race upstream_key
                   \<in> {JUndefined, JNull, JBool False, JNum 0, JStr []} \<longrightarrow>
                map_of ?sessions key = Some JNull)"
    using f by (simp add: session_keys_def js_or_null)
  have t: "(truthy (get_prop_opt race ''time'') \<longrightarrow>
             map_of props ''time'' = Some (get_prop_opt race ''time''))
         \<and> (get_prop_opt race ''time'' \<in> {JUndefined, JNull, JBool False, JNum 0, JStr []} \<longrightarrow>
             map_of props ''time'' = Some JNull)"
    using f by (simp add: pt js_or_null)
  from p ps k e t show ?thesis by blast
qed

theorem sessions_preserved_or_null_witness:
  "\<exists>shaped props sessions.
     shape_race sample_race = Inr shaped \<and> shaped = JObj props
     \<and> map_of props ''sessions'' = Some (JObj sessions)
     \<and> map_of sessions ''firstPractice''
         = Some (JObj [(''date'', JStr ''2024-02-29''), (''time'', JStr ''11:30:00Z'')])
     \<and> map_of sessions ''sprint'' = Some JNull
     \<and> map_of props ''time'' = Some (JStr ''15:00:00Z'')"
proof -
  obtain shaped where sh: "shape_race sample_race = Inr shaped"
    using shape_sample_race by (auto split: sum.splits)
  have fp: "get_prop_opt sample_race ''FirstPractice''
              = JObj [(''date'', JStr ''2024-02-29''), (''time'', JStr ''11:30:00Z'')]"
    by (simp add: sample_race_def)
  have sp: "get_prop_opt sample_race ''Sprint'' = JUndefined"
    by (simp add: sample_race_def)
  have tm: "get_prop_opt sample_race ''time'' = JStr ''15:00:00Z''"
    by (simp add: sample_race_def)
  have k1: "(''FirstPractice'', ''firstPractice'') \<in> set session_keys"
    and k2: "(''Sprint'', ''sprint'') \<in> set session_keys"
    by (simp_all add: session_keys_def)
  from sessions_preserved_or_null [OF sh] obtain props sessions where
    p: "shaped = JObj props" "map_of props ''sessions'' = Some (JObj sessions)" and
    a: "\<forall>(upstream_key, key) \<in> set session_keys.
                 (truthy (get_prop_opt sample_race upstream_key) \<longrightarrow>
                    map_of sessions key = Some (get_prop_opt sample_race upstream_key))
                 \<and> (get_prop_opt sample_race upstream_key
                       \<in> {JUndefined, JNull, JBool False, JNum 0, JStr []} \<longrightarrow>
                    map_of sessions key = Some JNull)" and
    t: "truthy (get_prop_opt sample_race ''time'') \<longrightarrow>
                 map_of props ''time'' = Some (get_prop_opt sample_race ''time'')"
    by blast
  from a k1 have "map_of sessions ''firstPractice''
         = Some (JObj [(''date'', JStr ''2024-02-29''), (''time'', JStr ''11:30:00Z'')])"
    by (auto simp: fp)
  moreover from a k2 have "map_of sessions ''sprint'' = Some JNull"
    by (auto simp: sp)
  moreover from t have "map_of props ''time'' = Some (JStr ''15:00:00Z'')"
    by (simp add: tm)
  ultimately show ?thesis using sh p by blast
qed

section \<open>Races without a circuit\<close>

lemma calendar_rest_shaping_fails:
  assumes "get_path data [''MRData'', ''RaceTable'', ''Races''] = Inr (JArr rs)"
      and "mapE shape_race rs = Inl e"
  shows "calendar_rest w year data = ([], Inl e)"
proof -
  from races_path [OF assms(1)] obtain mrData kvs where
    m: "get_prop data ''MRData'' = Inr mrData" and
    t: "get_prop mrData ''RaceTable'' = Inr (JObj kvs)" and
    k: "map_of kvs ''Races'' = Some (JArr rs)" by blast
  have n: "no_races mrData = Inr False"
    by (simp add: no_races_def t k)
  show ?thesis
    unfolding calendar_rest_def by (simp add: m n t k assms(2))
qed

text \<open>
  C10. A calendar request whose mandatory payload holds, anywhere in its race list, a
  record without \<^verbatim>\<open>Circuit\<close> or without \<^verbatim>\<open>Circuit.Location\<close> (missing or
  null) is replied to with the 500 of the \<^verbatim>\<open>catch\<close>: no 404, no calendar in the
  body, and no optional fetch. By \<open>shape_race_total_iff\<close> these records, and null ones,
  are the only ones on which the shaping throws.
\<close>

theorem race_without_circuit_500:
  assumes "valid (validateYear (boot_year w) year)"
      and "fetch w (ergast_url year []) = Inr r" and "ok r" and "json r = Inr data"
      and "get_path data [''MRData'', ''RaceTable'', ''Races''] = Inr (JArr rs)"
      and "race \<in> set rs" and "lacks_circuit race"
  shows "code (snd (calendar w year)) = 500
         \<and> get_prop (body (snd (calendar w year))) ''error''
             = Inr (JStr ''Erro interno do servidor'')
         \<and> get_prop (body (snd (calendar w year))) ''calendar'' = Inr JUndefined
         \<and> fst (calendar w year) = [ergast_url year []]"
proof -
  from shape_race_failure [of race] assms(7) obtain e where s: "shape_race race = Inl e"
    by blast
  from mapE_Inl [of race rs shape_race e] assms(6) s obtain e' where
    "mapE shape_race rs = Inl e'" by blast
  from calendar_rest_shaping_fails [OF assms(5) this]
  have "calendar_rest w year data = ([], Inl e')" .
  then show ?thesis
    unfolding calendar_def handler_data [OF assms(1-4)]
    by (simp add: internal_error_def)
qed

theorem race_without_circuit_500_witness:
  "code (snd (calendar (sample_world (races_payload [sample_race, no_circuit_race]) mocked_500)
                ''2024'')) = 500
   \<and> fst (calendar (sample_world (races_payload [sample_race, no_circuit_race]) mocked_500)
                ''2024'') = [ergast_url ''2024'' []]"
proof -
  let ?w = "sample_world (races_payload [sample_race, no_circuit_race]) mocked_500"
  let ?d = "JObj [(''MRData'', JObj [(''RaceTable'',
              JObj [(''season'', JStr ''2024''), (''Races'', JArr [sample_race, no_circuit_race])])])]"
  have v: "valid (validateYear (boot_year ?w) ''2024'')"
    using valid_2024 by (simp add: sample_world_def)
  have f: "fetch ?w (ergast_url ''2024'' []) = Inr \<lparr>status = 200, json = Inr ?d\<rparr>"
    by (simp add: sample_world_ergast races_payload_def)
  have k: "ok \<lparr>status = 200, json = Inr ?d\<rparr>" by (simp add: ok_def)
  have j: "json \<lparr>status = 200, json = Inr ?d\<rparr> = Inr ?d" by simp
  have p: "get_path ?d [''MRData'', ''RaceTable'', ''Races'']
             = Inr (JArr [sample_race, no_circuit_race])" by simp
  have m: "no_circuit_race \<in> set [sample_race, no_circuit_race]" by simp
  have l: "lacks_circuit no_circuit_race"
    by (simp add: lacks_circuit_def no_circuit_race_def nullish_def)
  from race_without_circuit_500 [OF v f k j p m l] show ?thesis by simp
qed

end
